theory Spec2Isabelle
  imports Main
begin

section \<open>Effects: calls to the outside world, their order, and exceptions\<close>

text \<open>
  Both handlers are sequences of awaited calls to services that live outside the
  repository. A computation takes the state \<open>'w\<close> of that outside world and gives back
  its outcome (\<open>Inl\<close> a thrown error, \<open>Inr\<close> a returned value), the calls it made in
  the order it made them, and the world afterwards.
\<close>

type_synonym ('x, 'ev, 'w, 'a) io = "'w \<Rightarrow> ('x + 'a) \<times> 'ev list \<times> 'w"

definition io_return :: "'a \<Rightarrow> ('x, 'ev, 'w, 'a) io" where
  "io_return x = (\<lambda>w. (Inr x, [], w))"

definition io_throw :: "'x \<Rightarrow> ('x, 'ev, 'w, 'a) io" where
  "io_throw e = (\<lambda>w. (Inl e, [], w))"

text \<open>A pure step that may throw (a property read, a parse).\<close>

definition io_lift :: "'x + 'a \<Rightarrow> ('x, 'ev, 'w, 'a) io" where
  "io_lift r = (\<lambda>w. (r, [], w))"

text \<open>\<open>const x = await m; f x\<close>: an error of \<open>m\<close> skips \<open>f\<close>.\<close>

definition io_bind ::
  "('x, 'ev, 'w, 'a) io \<Rightarrow> ('a \<Rightarrow> ('x, 'ev, 'w, 'b) io) \<Rightarrow> ('x, 'ev, 'w, 'b) io" where
  "io_bind m f = (\<lambda>w.
     case m w of
       (Inl e, evs, w') \<Rightarrow> (Inl e, evs, w')
     | (Inr x, evs, w') \<Rightarrow> (case f x w' of (r, evs', w'') \<Rightarrow> (r, evs @ evs', w'')))"

text \<open>\<open>try { m } catch (error) { h error }\<close>.\<close>

definition io_try ::
  "('x, 'ev, 'w, 'a) io \<Rightarrow> ('x \<Rightarrow> ('x, 'ev, 'w, 'a) io) \<Rightarrow> ('x, 'ev, 'w, 'a) io" where
  "io_try m h = (\<lambda>w.
     case m w of
       (Inl e, evs, w') \<Rightarrow> (case h e w' of (r, evs', w'') \<Rightarrow> (r, evs @ evs', w''))
     | (Inr x, evs, w') \<Rightarrow> (Inr x, evs, w'))"

text \<open>
  \<open>try { m } finally { f }\<close>: \<open>f\<close> runs whatever the outcome of \<open>m\<close>; the outcome of
  \<open>m\<close> stands unless \<open>f\<close> itself throws.
\<close>

definition io_finally ::
  "('x, 'ev, 'w, 'a) io \<Rightarrow> ('x, 'ev, 'w, unit) io \<Rightarrow> ('x, 'ev, 'w, 'a) io" where
  "io_finally m f = (\<lambda>w.
     case m w of
       (r, evs, w') \<Rightarrow>
         (case f w' of
            (Inl e, evs', w'') \<Rightarrow> (Inl e, evs @ evs', w'')
          | (Inr u, evs', w'') \<Rightarrow> (r, evs @ evs', w'')))"

text \<open>One call to an outside service: the call is recorded, the service answers.\<close>

definition io_call :: "'ev \<Rightarrow> ('w \<Rightarrow> ('x + 'a) \<times> 'w) \<Rightarrow> ('x, 'ev, 'w, 'a) io" where
  "io_call ev service = (\<lambda>w. case service w of (r, w') \<Rightarrow> (r, [ev], w'))"

text \<open>An effect with no answer (a log line).\<close>

definition io_emit :: "'ev \<Rightarrow> ('x, 'ev, 'w, unit) io" where
  "io_emit ev = (\<lambda>w. (Inr (), [ev], w))"

section \<open>The change-stream record\<close>

text \<open>
  \<open>DynamoDBRecord\<close> of \<open>aws-lambda\<close> and \<open>DynamodbStreamRecord\<close> of the Java events
  library: \<open>dynamodb\<close> and \<open>NewImage\<close> are optional (nullable) in both.
\<close>

datatype AttributeValue =
    S string
  | N string
  | B string
  | SS "string list"
  | NS "string list"
  | BS "string list"
  | M "(string \<times> AttributeValue) list"
  | L "AttributeValue list"
  | NULL bool
  | BOOL bool

record StreamRecord =
  NewImage :: "(string \<times> AttributeValue) list option"

record DynamoDBRecord =
  dynamodb :: "StreamRecord option"

record DynamoDBStreamEvent =
  Records :: "DynamoDBRecord list"

section \<open>The TypeScript handler (modules/module2/index.ts)\<close>

subsection \<open>Values and errors of the runtime\<close>

text \<open>
  The values are what \<open>unmarshall\<close> and \<open>JSON.parse\<close> return, and what a property
  read of them gives. A number carries its literal, since the handler computes with
  none. \<open>JsInherited k\<close> is the member \<open>k\<close> of \<open>Object.prototype\<close>, which every
  object made by \<open>JSON.parse\<close> or \<open>unmarshall\<close> inherits.
\<close>

datatype js_value =
    JsUndefined
  | JsNull
  | JsBoolean bool
  | JsNumber string
  | JsString string
  | JsArray "js_value list"
  | JsObject "(string \<times> js_value) list"
  | JsInherited string

text \<open>
  The two classes of \<open>./errors\<close> and the classes of the runtime; \<open>OtherError c\<close> is
  an instance of any other class \<open>c\<close>, which extends neither of the two.
\<close>

datatype error_class =
    NoPersonFoundError
  | NoLabelsFoundError
  | Error
  | TypeError
  | SyntaxError
  | OtherError string

datatype js_error = JsError (error_class: error_class) (message: string)

definition instanceof :: "js_error \<Rightarrow> error_class \<Rightarrow> bool" where
  "instanceof error c = (error_class error = c)"

text \<open>The names of the properties of \<open>Object.prototype\<close>.\<close>

definition Object_prototype :: "string list" where
  "Object_prototype =
     [''constructor'', ''__defineGetter__'', ''__defineSetter__'', ''hasOwnProperty'',
      ''__lookupGetter__'', ''__lookupSetter__'', ''isPrototypeOf'', ''propertyIsEnumerable'',
      ''toString'', ''valueOf'', ''__proto__'', ''toLocaleString'']"

text \<open>
  The property read \<open>v[k]\<close>. On \<open>undefined\<close> and \<open>null\<close> it throws a
  \<open>TypeError\<close> (the message is the engine's). On an object it gives the object's own
  entry under \<open>k\<close>; without one it gives the member of \<open>Object.prototype\<close> of that
  name when there is one, and \<open>undefined\<close> otherwise. What the read gives on any
  other value (the length and the characters of a string, the elements of an array, the
  methods of the other prototypes) is the answer \<open>builtin v k\<close> of the runtime, a
  parameter.
\<close>

definition cannot_read :: "string \<Rightarrow> string \<Rightarrow> js_error" where
  "cannot_read nothing k =
     JsError TypeError
       (''Cannot read properties of '' @ nothing @ '' (reading '' @ [CHR 0x27] @ k @ [CHR 0x27] @ '')'')"

fun js_get :: "(js_value \<Rightarrow> string \<Rightarrow> js_value) \<Rightarrow> js_value \<Rightarrow> string \<Rightarrow> js_error + js_value" where
  "js_get builtin JsUndefined k = Inl (cannot_read ''undefined'' k)"
| "js_get builtin JsNull k = Inl (cannot_read ''null'' k)"
| "js_get builtin (JsObject kvs) k =
     Inr (case map_of kvs k of
            Some v \<Rightarrow> v
          | None \<Rightarrow> if k \<in> set Object_prototype then JsInherited k else JsUndefined)"
| "js_get builtin v k = Inr (builtin v k)"

subsection \<open>What the module imports\<close>

record GetSecretValueResponse =
  SecretString :: "string option"

record SSM_Parameter =
  Value :: "string option"

record GetParameterResult =
  Parameter :: "SSM_Parameter option"

text \<open>
  The calls the handler makes, as they appear in the trace. \<open>SsmSend n\<close> is
  \<open>ssmClient.send(new GetParameterCommand({Name: n}))\<close>, \<open>SecretsSend n\<close> is
  \<open>secretsClient.send(new GetSecretValueCommand({SecretId: n}))\<close>.
\<close>

datatype event =
    GetLabelsCall string js_value js_value js_value
  | LoggerWarn string
  | SsmSend string
  | SecretsSend string
  | ReportImageIssueCall js_value js_value js_value js_value

text \<open>
  Everything the module imports is a parameter: the environment variables, the pure
  library functions \<open>unmarshall\<close> and \<open>JSON.parse\<close>, and the services, each of which
  answers from the state of the world and may change it. So is \<open>builtin_property\<close>,
  the runtime's answer to a property read on a value that is not an object of data.
\<close>

record 'w env =
  process_env :: "string \<Rightarrow> string option"
  builtin_property :: "js_value \<Rightarrow> string \<Rightarrow> js_value"
  unmarshall :: "(string \<times> AttributeValue) list option \<Rightarrow> js_error + js_value"
  JSON_parse :: "string \<Rightarrow> js_error + js_value"
  getLabels :: "string \<Rightarrow> js_value \<Rightarrow> js_value \<Rightarrow> js_value \<Rightarrow> 'w \<Rightarrow> (js_error + unit) \<times> 'w"
  reportImageIssue :: "js_value \<Rightarrow> js_value \<Rightarrow> js_value \<Rightarrow> js_value \<Rightarrow> 'w \<Rightarrow> (js_error + unit) \<times> 'w"
  secretsClient_send :: "string \<Rightarrow> 'w \<Rightarrow> (js_error + GetSecretValueResponse) \<times> 'w"
  ssmClient_send :: "string \<Rightarrow> 'w \<Rightarrow> (js_error + GetParameterResult) \<times> 'w"

text \<open>\<open>process.env.X || ''\<close>: an unset or empty variable gives the empty string.\<close>

definition env_or_empty :: "'w env \<Rightarrow> string \<Rightarrow> string" where
  "env_or_empty env name = (case process_env env name of None \<Rightarrow> [] | Some v \<Rightarrow> v)"

definition s3BucketFiles :: "'w env \<Rightarrow> string" where
  "s3BucketFiles env = env_or_empty env ''BUCKET_NAME_FILES''"

definition apiUrlParameterName :: "'w env \<Rightarrow> string" where
  "apiUrlParameterName env = env_or_empty env ''API_URL_PARAMETER_NAME''"

definition apiKeySecretName :: "'w env \<Rightarrow> string" where
  "apiKeySecretName env = env_or_empty env ''API_KEY_SECRET_NAME''"

subsection \<open>getSecret and getParameter\<close>

text \<open>\<open>JSON.parse(text)[name]\<close>\<close>

definition parse_and_index :: "'w env \<Rightarrow> string \<Rightarrow> string \<Rightarrow> js_error + js_value" where
  "parse_and_index env text name =
     (case JSON_parse env text of Inl e \<Rightarrow> Inl e | Inr v \<Rightarrow> js_get (builtin_property env) v name)"

definition getSecret :: "'w env \<Rightarrow> string \<Rightarrow> (js_error, event, 'w, js_value) io" where
  "getSecret env secretName =
     io_bind (io_call (SecretsSend secretName) (secretsClient_send env secretName))
       (\<lambda>response.
          case SecretString response of
            None \<Rightarrow> io_throw (JsError Error (''Unable to get secret '' @ secretName))
          | Some secret \<Rightarrow>
              if secret = [] then io_throw (JsError Error (''Unable to get secret '' @ secretName))
              else io_lift (parse_and_index env secret secretName))"

text \<open>\<open>response.Parameter?.Value\<close> is \<open>undefined\<close> when \<open>Parameter\<close> is.\<close>

definition Parameter_Value :: "GetParameterResult \<Rightarrow> string option" where
  "Parameter_Value response = (case Parameter response of None \<Rightarrow> None | Some p \<Rightarrow> Value p)"

definition getParameter :: "'w env \<Rightarrow> string \<Rightarrow> (js_error, event, 'w, js_value) io" where
  "getParameter env parameterPath =
     io_bind (io_call (SsmSend parameterPath) (ssmClient_send env parameterPath))
       (\<lambda>response.
          case Parameter_Value response of
            None \<Rightarrow> io_throw (JsError Error (''Unable to get parameter '' @ parameterPath))
          | Some parameter \<Rightarrow>
              if parameter = [] then io_throw (JsError Error (''Unable to get parameter '' @ parameterPath))
              else io_lift (parse_and_index env parameter parameterPath))"

subsection \<open>recordHandler and handler\<close>

text \<open>
  Lines 54 to 57: \<open>record.dynamodb!.NewImage!\<close> (the assertions are erased when the
  module is compiled, so an absent \<open>dynamodb\<close> is a property read of \<open>undefined\<close>),
  \<open>unmarshall\<close>, and the destructuring of \<open>id\<close>, \<open>userId\<close> and
  \<open>transformedFileKey\<close>.
\<close>

definition recordData :: "'w env \<Rightarrow> DynamoDBRecord \<Rightarrow> js_error + js_value \<times> js_value \<times> js_value" where
  "recordData env record =
     (case dynamodb record of
        None \<Rightarrow> Inl (cannot_read ''undefined'' ''NewImage'')
      | Some sr \<Rightarrow>
          (case unmarshall env (NewImage sr) of
             Inl e \<Rightarrow> Inl e
           | Inr data \<Rightarrow>
               (case js_get (builtin_property env) data ''id'' of
                  Inl e \<Rightarrow> Inl e
                | Inr fileId \<Rightarrow>
                    (case js_get (builtin_property env) data ''userId'' of
                       Inl e \<Rightarrow> Inl e
                     | Inr userId \<Rightarrow>
                         (case js_get (builtin_property env) data ''transformedFileKey'' of
                            Inl e \<Rightarrow> Inl e
                          | Inr transformedFileKey \<Rightarrow> Inr (fileId, userId, transformedFileKey))))))"

text \<open>
  Lines 59 to 78. The arguments of \<open>reportImageIssue\<close> are evaluated left to
  right: \<open>getParameter\<close> is awaited before \<open>getSecret\<close>, and both before the call.
\<close>

definition recordHandler :: "'w env \<Rightarrow> DynamoDBRecord \<Rightarrow> (js_error, event, 'w, unit) io" where
  "recordHandler env record =
     io_bind (io_lift (recordData env record))
       (\<lambda>(fileId, userId, transformedFileKey).
          io_try
            (io_call (GetLabelsCall (s3BucketFiles env) fileId userId transformedFileKey)
               (getLabels env (s3BucketFiles env) fileId userId transformedFileKey))
            (\<lambda>error.
               if instanceof error NoPersonFoundError \<or> instanceof error NoLabelsFoundError
               then
                 io_bind (io_emit (LoggerWarn ''No person found in the image''))
                   (\<lambda>_. io_bind (getParameter env (apiUrlParameterName env))
                     (\<lambda>apiUrl. io_bind (getSecret env (apiKeySecretName env))
                       (\<lambda>apiKey.
                          io_call (ReportImageIssueCall fileId userId apiUrl apiKey)
                            (reportImageIssue env fileId userId apiUrl apiKey))))
               else io_throw error))"

text \<open>
  Lines 82 to 92, the function given to \<open>middy\<close>: the loop over \<open>event.Records\<close>. The
  first record whose \<open>recordHandler\<close> throws ends the loop with a new \<open>Error\<close>. The
  tracing and logging middleware around it belongs to the libraries and is left out.
\<close>

fun processRecords :: "'w env \<Rightarrow> DynamoDBRecord list \<Rightarrow> (js_error, event, 'w, unit) io" where
  "processRecords env [] = io_return ()"
| "processRecords env (record # records) =
     io_bind
       (io_try (recordHandler env record)
          (\<lambda>error. io_throw (JsError Error ''Error processing record'')))
       (\<lambda>_. processRecords env records)"

definition handler :: "'w env \<Rightarrow> DynamoDBStreamEvent \<Rightarrow> (js_error, event, 'w, unit) io" where
  "handler env event = processRecords env (Records event)"

section \<open>The Java handler (Module2HandlerComplete.java)\<close>

text \<open>
  A reference is \<open>None\<close> when it is \<open>null\<close>. \<open>ImageDetectionException m\<close> is an
  instance of that class or of a subclass of it, which is what the \<open>catch\<close> clause
  matches; \<open>OtherThrowable c m\<close> is an instance of any class outside it.
\<close>

datatype throwable =
    NullPointerException
  | ImageDetectionException string
  | OtherThrowable string string

datatype jevent =
    AppendKey string "string option"
  | RemoveKey string
  | JGetLabels "string option" "string option" "string option" "string option"
  | JLoggerWarn string
  | SsmProviderGet nat "string option"
  | SecretsProviderGet nat "string option"
  | JReportImageIssue "string option" "string option" "string option" "string option"

text \<open>
  \<open>ssmProvider_get age name\<close> is \<open>ssmProvider.withMaxAge(age, SECONDS).get(name)\<close>,
  and likewise for the secrets provider; both providers belong to the parameters library.
\<close>

record 'w jenv =
  System_getenv :: "string \<Rightarrow> string option"
  j_getLabels :: "string option \<Rightarrow> string option \<Rightarrow> string option \<Rightarrow> string option
     \<Rightarrow> 'w \<Rightarrow> (throwable + unit) \<times> 'w"
  j_reportImageIssue :: "string option \<Rightarrow> string option \<Rightarrow> string option \<Rightarrow> string option
     \<Rightarrow> 'w \<Rightarrow> (throwable + unit) \<times> 'w"
  ssmProvider_get :: "nat \<Rightarrow> string option \<Rightarrow> 'w \<Rightarrow> (throwable + string option) \<times> 'w"
  secretsProvider_get :: "nat \<Rightarrow> string option \<Rightarrow> 'w \<Rightarrow> (throwable + string option) \<times> 'w"

definition API_URL_PARAMETER_NAME :: "'w jenv \<Rightarrow> string option" where
  "API_URL_PARAMETER_NAME jenv = System_getenv jenv ''API_URL_PARAMETER_NAME''"

definition API_KEY_SECRET_NAME :: "'w jenv \<Rightarrow> string option" where
  "API_KEY_SECRET_NAME jenv = System_getenv jenv ''API_KEY_SECRET_NAME''"

definition BUCKET_NAME_FILES :: "'w jenv \<Rightarrow> string option" where
  "BUCKET_NAME_FILES jenv = System_getenv jenv ''BUCKET_NAME_FILES''"

text \<open>\<open>AttributeValue.getS()\<close>: the string of an \<open>S\<close> attribute, \<open>null\<close> otherwise.\<close>

fun getS :: "AttributeValue \<Rightarrow> string option" where
  "getS (S s) = Some s"
| "getS v = None"

text \<open>\<open>data.get(key).getS()\<close>: a \<open>null\<close> map or a key it does not hold is dereferenced.\<close>

definition get_getS :: "(string \<times> AttributeValue) list option \<Rightarrow> string \<Rightarrow> throwable + string option" where
  "get_getS data key =
     (case data of
        None \<Rightarrow> Inl NullPointerException
      | Some m \<Rightarrow> (case map_of m key of None \<Rightarrow> Inl NullPointerException | Some v \<Rightarrow> Inr (getS v)))"

text \<open>Lines 57 to 60.\<close>

definition messageData ::
  "DynamoDBRecord \<Rightarrow> throwable + string option \<times> string option \<times> string option" where
  "messageData dynamodbStreamRecord =
     (case dynamodb dynamodbStreamRecord of
        None \<Rightarrow> Inl NullPointerException
      | Some sr \<Rightarrow>
          (case get_getS (NewImage sr) ''id'' of
             Inl e \<Rightarrow> Inl e
           | Inr fileId \<Rightarrow>
               (case get_getS (NewImage sr) ''userId'' of
                  Inl e \<Rightarrow> Inl e
                | Inr userId \<Rightarrow>
                    (case get_getS (NewImage sr) ''transformedFileKey'' of
                       Inl e \<Rightarrow> Inl e
                     | Inr transformedFileKey \<Rightarrow> Inr (fileId, userId, transformedFileKey)))))"

text \<open>
  Lines 64 to 80. \<open>handleRequest\<close> hands every record of the batch to this method
  through the batch handler of the library, which is not part of the model.
\<close>

definition processMessage :: "'w jenv \<Rightarrow> DynamoDBRecord \<Rightarrow> (throwable, jevent, 'w, unit) io" where
  "processMessage jenv dynamodbStreamRecord =
     io_bind (io_lift (messageData dynamodbStreamRecord))
       (\<lambda>(fileId, userId, transformedFileKey).
          io_bind (io_emit (AppendKey ''fileId'' fileId))
            (\<lambda>_. io_bind (io_emit (AppendKey ''userId'' userId))
              (\<lambda>_.
                 io_finally
                   (io_try
                      (io_call (JGetLabels (BUCKET_NAME_FILES jenv) fileId userId transformedFileKey)
                         (j_getLabels jenv (BUCKET_NAME_FILES jenv) fileId userId transformedFileKey))
                      (\<lambda>e.
                         case e of
                           ImageDetectionException m \<Rightarrow>
                             io_bind (io_emit (JLoggerWarn ''No person found in the image''))
                               (\<lambda>_. io_bind
                                  (io_call (SsmProviderGet 900 (API_URL_PARAMETER_NAME jenv))
                                     (ssmProvider_get jenv 900 (API_URL_PARAMETER_NAME jenv)))
                                  (\<lambda>apiUrl. io_bind
                                     (io_call (SecretsProviderGet 900 (API_KEY_SECRET_NAME jenv))
                                        (secretsProvider_get jenv 900 (API_KEY_SECRET_NAME jenv)))
                                     (\<lambda>apiKey.
                                        io_call (JReportImageIssue fileId userId apiUrl apiKey)
                                          (j_reportImageIssue jenv fileId userId apiUrl apiKey))))
                         | _ \<Rightarrow> io_throw e))
                   (io_bind (io_emit (RemoveKey ''fileId'')) (\<lambda>_. io_emit (RemoveKey ''userId''))))))"

section \<open>Scripted surroundings\<close>

text \<open>
  Concrete services on which the handlers can be run. The outcome of the labeling call
  is scripted by the file id: \<open>landscape\<close> has no person, \<open>blank\<close> has no labels,
  \<open>corrupt\<close> makes the service fail, any other file is labelled.
\<close>

definition stream_record :: "string \<Rightarrow> DynamoDBRecord" where
  "stream_record fileId =
     \<lparr>dynamodb = Some \<lparr>NewImage = Some
        [(''id'', S fileId), (''userId'', S ''user-1''),
         (''transformedFileKey'', S (''transformed/'' @ fileId))]\<rparr>\<rparr>"

definition scripted_variables :: "string \<Rightarrow> string option" where
  "scripted_variables =
     map_of [(''BUCKET_NAME_FILES'', ''media-files''),
             (''API_URL_PARAMETER_NAME'', ''/app/api-url''),
             (''API_KEY_SECRET_NAME'', ''app/api-key'')]"

subsection \<open>For the TypeScript handler\<close>

text \<open>
  The world holds what the two stores answer for a name, and remembers the files
  labelled and the issues reported.
\<close>

record world =
  parameters :: "(string \<times> string) list"
  secrets :: "(string \<times> string) list"
  labelled :: "js_value list"
  reported :: "js_value list"

text \<open>Stands in for \<open>unmarshall\<close> on images whose attributes are strings.\<close>

definition scripted_unmarshall :: "(string \<times> AttributeValue) list option \<Rightarrow> js_error + js_value" where
  "scripted_unmarshall newImage =
     (case newImage of
        None \<Rightarrow> Inl (JsError TypeError ''Cannot convert undefined or null to object'')
      | Some m \<Rightarrow>
          Inr (JsObject (map (\<lambda>(k, v). (k, case v of S s \<Rightarrow> JsString s | _ \<Rightarrow> JsNull)) m)))"

text \<open>
  Stands in for \<open>JSON.parse\<close> on the texts that the scripted stores hold: three
  objects, \<open>null\<close>, and texts that are not JSON (a bare URL, a bare key). It knows no
  other text, and the message of its error is not the engine's.
\<close>

definition scripted_JSON_parse :: "string \<Rightarrow> js_error + js_value" where
  \<open>scripted_JSON_parse text =
     (if text = ''{"/app/api-url":"https://api.example.com/report"}''
      then Inr (JsObject [(''/app/api-url'', JsString ''https://api.example.com/report'')])
      else if text = ''{"app/api-key":"k-123"}''
      then Inr (JsObject [(''app/api-key'', JsString ''k-123'')])
      else if text = ''{"url":"https://api.example.com/report"}''
      then Inr (JsObject [(''url'', JsString ''https://api.example.com/report'')])
      else if text = ''null''
      then Inr JsNull
      else Inl (JsError SyntaxError ''Unexpected token''))\<close>

definition scripted_getLabels ::
  "string \<Rightarrow> js_value \<Rightarrow> js_value \<Rightarrow> js_value \<Rightarrow> world \<Rightarrow> (js_error + unit) \<times> world" where
  "scripted_getLabels bucket fileId userId transformedFileKey w =
     ((if fileId = JsString ''landscape'' then Inl (JsError NoPersonFoundError ''No person found'')
       else if fileId = JsString ''blank'' then Inl (JsError NoLabelsFoundError ''No labels found'')
       else if fileId = JsString ''corrupt''
       then Inl (JsError (OtherError ''InvalidImageFormatException'') ''Request has invalid image format'')
       else Inr ()),
      w\<lparr>labelled := labelled w @ [fileId]\<rparr>)"

definition scripted_reportImageIssue ::
  "js_value \<Rightarrow> js_value \<Rightarrow> js_value \<Rightarrow> js_value \<Rightarrow> world \<Rightarrow> (js_error + unit) \<times> world" where
  "scripted_reportImageIssue fileId userId apiUrl apiKey w =
     (Inr (), w\<lparr>reported := reported w @ [fileId]\<rparr>)"

definition scripted_secrets_send :: "string \<Rightarrow> world \<Rightarrow> (js_error + GetSecretValueResponse) \<times> world" where
  "scripted_secrets_send name w = (Inr \<lparr>SecretString = map_of (secrets w) name\<rparr>, w)"

definition scripted_ssm_send :: "string \<Rightarrow> world \<Rightarrow> (js_error + GetParameterResult) \<times> world" where
  "scripted_ssm_send name w =
     (Inr \<lparr>Parameter =
        (case map_of (parameters w) name of None \<Rightarrow> None | Some v \<Rightarrow> Some \<lparr>Value = Some v\<rparr>)\<rparr>, w)"

text \<open>The scripted runs read properties of objects only.\<close>

definition scripted_builtin_property :: "js_value \<Rightarrow> string \<Rightarrow> js_value" where
  "scripted_builtin_property v k = JsUndefined"

definition scripted_env :: "world env" where
  "scripted_env =
     \<lparr>process_env = scripted_variables,
      builtin_property = scripted_builtin_property,
      unmarshall = scripted_unmarshall,
      JSON_parse = scripted_JSON_parse,
      getLabels = scripted_getLabels,
      reportImageIssue = scripted_reportImageIssue,
      secretsClient_send = scripted_secrets_send,
      ssmClient_send = scripted_ssm_send\<rparr>"

text \<open>A world whose stores hold both values as JSON objects keyed by their own names.\<close>

definition stocked_world :: world where
  \<open>stocked_world =
     \<lparr>parameters = [(''/app/api-url'', ''{"/app/api-url":"https://api.example.com/report"}'')],
      secrets = [(''app/api-key'', ''{"app/api-key":"k-123"}'')],
      labelled = [],
      reported = []\<rparr>\<close>

subsection \<open>For the Java handler\<close>

text \<open>
  A provider of the parameters library keeps the values it has fetched. Asked for a key
  with a maximum age, it answers from its cache while the entry has not expired, and
  otherwise reads the store and keeps the answer for that age. The result says whether
  the store was read.
\<close>

type_synonym provider_cache = "(string \<times> string option \<times> nat) list"

definition provider_get ::
  "(string \<Rightarrow> string option) \<Rightarrow> nat \<Rightarrow> string \<Rightarrow> nat \<Rightarrow> provider_cache
     \<Rightarrow> string option \<times> bool \<times> provider_cache" where
  "provider_get store maxAge key now cache =
     (case map_of cache key of
        None \<Rightarrow> (store key, True, (key, store key, now + maxAge) # cache)
      | Some (v, expires) \<Rightarrow>
          if now \<le> expires then (v, False, cache)
          else (store key, True, (key, store key, now + maxAge) # cache))"

text \<open>
  The world has a clock in seconds and the two providers' caches, and remembers the
  reads that reached each store.
\<close>

record jworld =
  clock :: nat
  ssm_cache :: provider_cache
  secrets_cache :: provider_cache
  ssm_reads :: "string list"
  secrets_reads :: "string list"

definition cached_ssm_get :: "nat \<Rightarrow> string option \<Rightarrow> jworld \<Rightarrow> (throwable + string option) \<times> jworld" where
  "cached_ssm_get maxAge name w =
     (case name of
        None \<Rightarrow> (Inl NullPointerException, w)
      | Some key \<Rightarrow>
          (case provider_get (map_of [(''/app/api-url'', ''https://api.example.com/report'')])
                  maxAge key (clock w) (ssm_cache w) of
             (v, read, cache) \<Rightarrow>
               (Inr v, w\<lparr>ssm_cache := cache,
                         ssm_reads := (if read then ssm_reads w @ [key] else ssm_reads w)\<rparr>)))"

definition cached_secrets_get :: "nat \<Rightarrow> string option \<Rightarrow> jworld \<Rightarrow> (throwable + string option) \<times> jworld" where
  "cached_secrets_get maxAge name w =
     (case name of
        None \<Rightarrow> (Inl NullPointerException, w)
      | Some key \<Rightarrow>
          (case provider_get (map_of [(''app/api-key'', ''k-123'')])
                  maxAge key (clock w) (secrets_cache w) of
             (v, read, cache) \<Rightarrow>
               (Inr v, w\<lparr>secrets_cache := cache,
                         secrets_reads := (if read then secrets_reads w @ [key] else secrets_reads w)\<rparr>)))"

text \<open>Each labeling call takes a second.\<close>

definition scripted_j_getLabels ::
  "string option \<Rightarrow> string option \<Rightarrow> string option \<Rightarrow> string option
     \<Rightarrow> jworld \<Rightarrow> (throwable + unit) \<times> jworld" where
  "scripted_j_getLabels bucket fileId userId transformedFileKey w =
     ((if fileId = Some ''landscape'' then Inl (ImageDetectionException ''No person found'')
       else if fileId = Some ''blank'' then Inl (ImageDetectionException ''No labels found'')
       else if fileId = Some ''corrupt''
       then Inl (OtherThrowable ''InvalidImageFormatException'' ''Request has invalid image format'')
       else Inr ()),
      w\<lparr>clock := clock w + 1\<rparr>)"

definition scripted_j_reportImageIssue ::
  "string option \<Rightarrow> string option \<Rightarrow> string option \<Rightarrow> string option
     \<Rightarrow> jworld \<Rightarrow> (throwable + unit) \<times> jworld" where
  "scripted_j_reportImageIssue fileId userId apiUrl apiKey w = (Inr (), w)"

definition cached_jenv :: "jworld jenv" where
  "cached_jenv =
     \<lparr>System_getenv = scripted_variables,
      j_getLabels = scripted_j_getLabels,
      j_reportImageIssue = scripted_j_reportImageIssue,
      ssmProvider_get = cached_ssm_get,
      secretsProvider_get = cached_secrets_get\<rparr>"

definition cold_jworld :: jworld where
  "cold_jworld = \<lparr>clock = 0, ssm_cache = [], secrets_cache = [], ssm_reads = [], secrets_reads = []\<rparr>"

section \<open>Properties of the handlers\<close>

subsection \<open>Unfolding\<close>

lemmas io_defs =
  io_return_def io_throw_def io_lift_def io_bind_def io_try_def io_finally_def io_call_def
  io_emit_def

lemmas lookup_defs = getParameter_def getSecret_def parse_and_index_def

lemmas scripted_defs =
  scripted_env_def scripted_variables_def scripted_unmarshall_def scripted_JSON_parse_def
  scripted_getLabels_def scripted_reportImageIssue_def scripted_secrets_send_def
  scripted_ssm_send_def stocked_world_def stream_record_def
  s3BucketFiles_def apiUrlParameterName_def apiKeySecretName_def env_or_empty_def
  recordData_def Parameter_Value_def

lemmas scripted_j_defs =
  cached_jenv_def scripted_j_getLabels_def scripted_j_reportImageIssue_def
  cached_ssm_get_def cached_secrets_get_def provider_get_def cold_jworld_def
  API_URL_PARAMETER_NAME_def API_KEY_SECRET_NAME_def BUCKET_NAME_FILES_def
  messageData_def get_getS_def

subsection \<open>One step of each handler\<close>

text \<open>Whatever its outcome, a lookup sends exactly one request to its store.\<close>

lemma getParameter_events: "getParameter env n w = (r, evs, w') \<Longrightarrow> evs = [SsmSend n]"
  by (auto simp: getParameter_def io_defs split: prod.splits sum.splits option.splits if_splits)

lemma getSecret_events: "getSecret env n w = (r, evs, w') \<Longrightarrow> evs = [SecretsSend n]"
  by (auto simp: getSecret_def io_defs split: prod.splits sum.splits option.splits if_splits)

lemma recordHandler_returns:
  assumes "recordData env rec = Inr (fileId, userId, key)"
    and "getLabels env (s3BucketFiles env) fileId userId key w = (Inr (), w1)"
  shows "recordHandler env rec w =
    (Inr (), [GetLabelsCall (s3BucketFiles env) fileId userId key], w1)"
  using assms by (simp add: recordHandler_def io_defs)

lemma recordHandler_rethrows:
  assumes "recordData env rec = Inr (fileId, userId, key)"
    and "getLabels env (s3BucketFiles env) fileId userId key w = (Inl error, w1)"
    and "error_class error \<noteq> NoPersonFoundError" and "error_class error \<noteq> NoLabelsFoundError"
  shows "recordHandler env rec w =
    (Inl error, [GetLabelsCall (s3BucketFiles env) fileId userId key], w1)"
  using assms by (simp add: recordHandler_def io_defs instanceof_def)

lemma recordHandler_reports:
  assumes "recordData env rec = Inr (fileId, userId, key)"
    and "getLabels env (s3BucketFiles env) fileId userId key w = (Inl error, w1)"
    and "error_class error = NoPersonFoundError \<or> error_class error = NoLabelsFoundError"
    and "getParameter env (apiUrlParameterName env) w1 = (Inr apiUrl, evs1, w2)"
    and "getSecret env (apiKeySecretName env) w2 = (Inr apiKey, evs2, w3)"
    and "reportImageIssue env fileId userId apiUrl apiKey w3 = (Inr (), w4)"
  shows "recordHandler env rec w =
    (Inr (),
     [GetLabelsCall (s3BucketFiles env) fileId userId key,
      LoggerWarn ''No person found in the image'',
      SsmSend (apiUrlParameterName env),
      SecretsSend (apiKeySecretName env),
      ReportImageIssueCall fileId userId apiUrl apiKey], w4)"
  using assms getParameter_events[OF assms(4)] getSecret_events[OF assms(5)]
  by (simp add: recordHandler_def io_defs instanceof_def)

lemma processMessage_reports:
  assumes "messageData dynamodbStreamRecord = Inr (fileId, userId, key)"
    and "j_getLabels jenv (BUCKET_NAME_FILES jenv) fileId userId key w = (Inl (ImageDetectionException m), w1)"
    and "ssmProvider_get jenv 900 (API_URL_PARAMETER_NAME jenv) w1 = (Inr apiUrl, w2)"
    and "secretsProvider_get jenv 900 (API_KEY_SECRET_NAME jenv) w2 = (Inr apiKey, w3)"
    and "j_reportImageIssue jenv fileId userId apiUrl apiKey w3 = (Inr (), w4)"
  shows "processMessage jenv dynamodbStreamRecord w =
    (Inr (),
     [AppendKey ''fileId'' fileId, AppendKey ''userId'' userId,
      JGetLabels (BUCKET_NAME_FILES jenv) fileId userId key,
      JLoggerWarn ''No person found in the image'',
      SsmProviderGet 900 (API_URL_PARAMETER_NAME jenv),
      SecretsProviderGet 900 (API_KEY_SECRET_NAME jenv),
      JReportImageIssue fileId userId apiUrl apiKey,
      RemoveKey ''fileId'', RemoveKey ''userId''], w4)"
  using assms by (simp add: processMessage_def io_defs)

text \<open>
  The \<open>catch\<close> clause of the Java handler matches \<open>ImageDetectionException\<close> only:
  any other throwable leaves \<open>processMessage\<close> after the \<open>finally\<close> block.
\<close>

lemma processMessage_rethrows:
  assumes "messageData dynamodbStreamRecord = Inr (fileId, userId, key)"
    and "j_getLabels jenv (BUCKET_NAME_FILES jenv) fileId userId key w = (Inl e, w1)"
    and "\<forall>m. e \<noteq> ImageDetectionException m"
  shows "processMessage jenv dynamodbStreamRecord w =
    (Inl e,
     [AppendKey ''fileId'' fileId, AppendKey ''userId'' userId,
      JGetLabels (BUCKET_NAME_FILES jenv) fileId userId key,
      RemoveKey ''fileId'', RemoveKey ''userId''], w1)"
  using assms by (cases e) (simp_all add: processMessage_def io_defs)

text \<open>The loop of \<open>handler\<close>, one record at a time.\<close>

lemma processRecords_next:
  "recordHandler env rec w = (Inr (), evs, w1) \<Longrightarrow> processRecords env recs w1 = (r, evs', w2)
   \<Longrightarrow> processRecords env (rec # recs) w = (r, evs @ evs', w2)"
  by (simp add: io_defs)

lemma processRecords_aborts:
  "recordHandler env rec w = (Inl error, evs, w1)
   \<Longrightarrow> processRecords env (rec # recs) w =
       (Inl (JsError Error ''Error processing record''), evs, w1)"
  by (simp add: io_defs)

text \<open>
  The loop of \<open>handler\<close> does not pass that error on: it throws a new \<open>Error\<close> in
  its place.
\<close>

lemma handler_replaces_error:
  assumes "recordData env rec = Inr (fileId, userId, key)"
    and "getLabels env (s3BucketFiles env) fileId userId key w = (Inl error, w1)"
    and "error_class error \<noteq> NoPersonFoundError" and "error_class error \<noteq> NoLabelsFoundError"
  shows "handler env \<lparr>Records = rec # recs\<rparr> w =
    (Inl (JsError Error ''Error processing record''),
     [GetLabelsCall (s3BucketFiles env) fileId userId key], w1)"
  using processRecords_aborts [OF recordHandler_rethrows [OF assms]]
  by (simp add: handler_def)

lemma recordHandler_soft_branch:
  assumes "recordData env rec = Inr (fileId, userId, key)"
    and "getLabels env (s3BucketFiles env) fileId userId key w = (Inl error, w1)"
    and "error_class error = NoPersonFoundError \<or> error_class error = NoLabelsFoundError"
  shows "recordHandler env rec w =
    (case io_bind (getParameter env (apiUrlParameterName env))
            (\<lambda>apiUrl. io_bind (getSecret env (apiKeySecretName env))
               (\<lambda>apiKey. io_call (ReportImageIssueCall fileId userId apiUrl apiKey)
                  (reportImageIssue env fileId userId apiUrl apiKey))) w1 of
       (r, evs, w') \<Rightarrow>
         (r, GetLabelsCall (s3BucketFiles env) fileId userId key
               # LoggerWarn ''No person found in the image'' # evs, w'))"
  using assms by (auto simp add: recordHandler_def io_defs instanceof_def split: prod.splits sum.splits)

lemma getParameter_sends_first:
  "\<exists>r w'. getParameter env n w = (r, [SsmSend n], w')"
  by (cases "getParameter env n w") (auto dest: getParameter_events)

lemma soft_branch_starts_lookup:
  assumes "recordData env rec = Inr (fileId, userId, key)"
    and "getLabels env (s3BucketFiles env) fileId userId key w = (Inl error, w1)"
    and "error_class error = NoPersonFoundError \<or> error_class error = NoLabelsFoundError"
  shows "\<exists>r evs w'. recordHandler env rec w =
      (r, GetLabelsCall (s3BucketFiles env) fileId userId key
            # LoggerWarn ''No person found in the image''
            # SsmSend (apiUrlParameterName env) # evs, w')"
proof -
  obtain r0 w0 where p: "getParameter env (apiUrlParameterName env) w1 = (r0, [SsmSend (apiUrlParameterName env)], w0)"
    using getParameter_sends_first [of env "apiUrlParameterName env" w1] by blast
  show ?thesis
    unfolding recordHandler_soft_branch [OF assms]
    using p by (auto simp add: io_bind_def split: prod.splits sum.splits)
qed

lemma soft_branch_ignores_class:
  assumes "recordData env rec = Inr (fileId, userId, key)"
    and "getLabels env (s3BucketFiles env) fileId userId key w = (Inl error, w1)"
    and "error_class error = NoPersonFoundError \<or> error_class error = NoLabelsFoundError"
    and "error_class error' = NoPersonFoundError \<or> error_class error' = NoLabelsFoundError"
    and "g (s3BucketFiles env) fileId userId key w = (Inl error', w1)"
  shows "recordHandler (env\<lparr>getLabels := g\<rparr>) rec w = recordHandler env rec w"
proof -
  let ?env' = "env\<lparr>getLabels := g\<rparr>"
  have parse: "parse_and_index ?env' = parse_and_index env"
    by (simp add: parse_and_index_def fun_eq_iff cong: sum.case_cong)
  have same: "s3BucketFiles ?env' = s3BucketFiles env"
    "apiUrlParameterName ?env' = apiUrlParameterName env"
    "apiKeySecretName ?env' = apiKeySecretName env"
    "recordData ?env' rec = recordData env rec"
    "getParameter ?env' = getParameter env"
    "getSecret ?env' = getSecret env"
    by (simp_all add: s3BucketFiles_def apiUrlParameterName_def apiKeySecretName_def
        env_or_empty_def recordData_def getParameter_def getSecret_def parse fun_eq_iff
        cong: option.case_cong sum.case_cong if_cong)
  have d: "recordData ?env' rec = Inr (fileId, userId, key)"
    using assms(1) same by simp
  have l: "getLabels ?env' (s3BucketFiles ?env') fileId userId key w = (Inl error', w1)"
    using assms(5) same by simp
  show ?thesis
    unfolding recordHandler_soft_branch [OF d l assms(4)] recordHandler_soft_branch [OF assms(1,2,3)]
    by (simp add: same)
qed

lemma getParameter_missing:
  assumes "ssmClient_send env n w = (Inr response, w')"
    and "Parameter_Value response = None \<or> Parameter_Value response = Some []"
  shows "getParameter env n w =
    (Inl (JsError Error (''Unable to get parameter '' @ n)), [SsmSend n], w')"
  using assms by (auto simp add: getParameter_def io_defs)

lemma getSecret_missing:
  assumes "secretsClient_send env n w = (Inr response, w')"
    and "SecretString response = None \<or> SecretString response = Some []"
  shows "getSecret env n w =
    (Inl (JsError Error (''Unable to get secret '' @ n)), [SecretsSend n], w')"
  using assms by (auto simp add: getSecret_def io_defs)

lemma recordHandler_parameter_fails:
  assumes "recordData env rec = Inr (fileId, userId, key)"
    and "getLabels env (s3BucketFiles env) fileId userId key w = (Inl error, w1)"
    and "error_class error = NoPersonFoundError \<or> error_class error = NoLabelsFoundError"
    and "getParameter env (apiUrlParameterName env) w1 = (Inl e, evs1, w2)"
  shows "recordHandler env rec w =
    (Inl e,
     [GetLabelsCall (s3BucketFiles env) fileId userId key,
      LoggerWarn ''No person found in the image'',
      SsmSend (apiUrlParameterName env)], w2)"
  unfolding recordHandler_soft_branch [OF assms(1,2,3)]
  using assms(4) getParameter_events [OF assms(4)] by (simp add: io_bind_def)

lemma recordHandler_secret_fails:
  assumes "recordData env rec = Inr (fileId, userId, key)"
    and "getLabels env (s3BucketFiles env) fileId userId key w = (Inl error, w1)"
    and "error_class error = NoPersonFoundError \<or> error_class error = NoLabelsFoundError"
    and "getParameter env (apiUrlParameterName env) w1 = (Inr apiUrl, evs1, w2)"
    and "getSecret env (apiKeySecretName env) w2 = (Inl e, evs2, w3)"
  shows "recordHandler env rec w =
    (Inl e,
     [GetLabelsCall (s3BucketFiles env) fileId userId key,
      LoggerWarn ''No person found in the image'',
      SsmSend (apiUrlParameterName env),
      SecretsSend (apiKeySecretName env)], w3)"
  unfolding recordHandler_soft_branch [OF assms(1,2,3)]
  using assms(4,5) getParameter_events [OF assms(4)] getSecret_events [OF assms(5)]
  by (simp add: io_bind_def)

lemma getParameter_stored:
  assumes "ssmClient_send env n w = (Inr response, w')"
    and "Parameter_Value response = Some stored" and "stored \<noteq> []"
  shows "getParameter env n w = (parse_and_index env stored n, [SsmSend n], w')"
  using assms by (simp add: getParameter_def io_defs)

lemma getSecret_stored:
  assumes "secretsClient_send env n w = (Inr response, w')"
    and "SecretString response = Some stored" and "stored \<noteq> []"
  shows "getSecret env n w = (parse_and_index env stored n, [SecretsSend n], w')"
  using assms by (simp add: getSecret_def io_defs)

lemma recordHandler_calls_labels:
  assumes "recordData env rec = Inr (fileId, userId, key)"
  shows "\<exists>r evs w'. recordHandler env rec w =
      (r, GetLabelsCall (s3BucketFiles env) fileId userId key # evs, w')"
  using assms
  by (cases "getLabels env (s3BucketFiles env) fileId userId key w")
     (auto simp add: recordHandler_def io_defs split: sum.splits prod.splits)

lemma run_twice:
  "m w = (Inr (), evs, w1) \<Longrightarrow> m w1 = (r, evs', w2)
   \<Longrightarrow> io_bind m (\<lambda>_. m) w = (r, evs @ evs', w2)"
  by (simp add: io_bind_def)

lemma recordHandler_no_dynamodb:
  "dynamodb rec = None \<Longrightarrow> \<exists>m. recordHandler env rec w = (Inl (JsError TypeError m), [], w)"
  by (simp add: recordHandler_def recordData_def cannot_read_def io_defs)

lemma recordHandler_unmarshall_throws:
  "dynamodb rec = Some sr \<Longrightarrow> unmarshall env (NewImage sr) = Inl e
   \<Longrightarrow> recordHandler env rec w = (Inl e, [], w)"
  by (simp add: recordHandler_def recordData_def io_defs)

lemma recordData_fields:
  "dynamodb rec = Some sr \<Longrightarrow> unmarshall env (NewImage sr) = Inr (JsObject kvs)
   \<Longrightarrow> recordData env rec =
       Inr (case map_of kvs ''id'' of None \<Rightarrow> JsUndefined | Some v \<Rightarrow> v,
            case map_of kvs ''userId'' of None \<Rightarrow> JsUndefined | Some v \<Rightarrow> v,
            case map_of kvs ''transformedFileKey'' of None \<Rightarrow> JsUndefined | Some v \<Rightarrow> v)"
  by (simp add: recordData_def Object_prototype_def)

lemma processMessage_null:
  assumes "dynamodb rec = None
     \<or> (\<exists>sr. dynamodb rec = Some sr
          \<and> (NewImage sr = None
             \<or> (\<exists>m. NewImage sr = Some m
                  \<and> (map_of m ''id'' = None \<or> map_of m ''userId'' = None
                     \<or> map_of m ''transformedFileKey'' = None))))"
  shows "processMessage jenv rec w = (Inl NullPointerException, [], w)"
proof -
  have "messageData rec = Inl NullPointerException"
    using assms by (auto simp add: messageData_def get_getS_def split: option.splits)
  then show ?thesis by (simp add: processMessage_def io_defs)
qed

lemma messageData_fields:
  "dynamodb rec = Some sr \<Longrightarrow> NewImage sr = Some m \<Longrightarrow> map_of m ''id'' = Some a
   \<Longrightarrow> map_of m ''userId'' = Some b \<Longrightarrow> map_of m ''transformedFileKey'' = Some c
   \<Longrightarrow> messageData rec = Inr (getS a, getS b, getS c)"
  by (simp add: messageData_def get_getS_def)


text \<open>The soft branch of the Java handler, whatever the lookups and the report answer.\<close>

lemma processMessage_soft_branch:
  assumes "messageData dynamodbStreamRecord = Inr (fileId, userId, key)"
    and "j_getLabels jenv (BUCKET_NAME_FILES jenv) fileId userId key w = (Inl (ImageDetectionException m), w1)"
  shows "processMessage jenv dynamodbStreamRecord w =
    (case io_bind
            (io_call (SsmProviderGet 900 (API_URL_PARAMETER_NAME jenv))
               (ssmProvider_get jenv 900 (API_URL_PARAMETER_NAME jenv)))
            (\<lambda>apiUrl. io_bind
               (io_call (SecretsProviderGet 900 (API_KEY_SECRET_NAME jenv))
                  (secretsProvider_get jenv 900 (API_KEY_SECRET_NAME jenv)))
               (\<lambda>apiKey. io_call (JReportImageIssue fileId userId apiUrl apiKey)
                  (j_reportImageIssue jenv fileId userId apiUrl apiKey))) w1 of
       (r, evs, w') \<Rightarrow>
         (r, [AppendKey ''fileId'' fileId, AppendKey ''userId'' userId,
              JGetLabels (BUCKET_NAME_FILES jenv) fileId userId key,
              JLoggerWarn ''No person found in the image'']
             @ evs @ [RemoveKey ''fileId'', RemoveKey ''userId''], w'))"
  using assms
  by (auto simp add: processMessage_def io_defs split: prod.splits sum.splits)

lemma processMessage_ignores_instance:
  assumes "messageData dynamodbStreamRecord = Inr (fileId, userId, key)"
    and "j_getLabels jenv (BUCKET_NAME_FILES jenv) fileId userId key w = (Inl (ImageDetectionException m), w1)"
    and "jg (BUCKET_NAME_FILES jenv) fileId userId key w = (Inl (ImageDetectionException m'), w1)"
  shows "processMessage (jenv\<lparr>j_getLabels := jg\<rparr>) dynamodbStreamRecord w
         = processMessage jenv dynamodbStreamRecord w"
proof -
  let ?jenv' = "jenv\<lparr>j_getLabels := jg\<rparr>"
  have same: "BUCKET_NAME_FILES ?jenv' = BUCKET_NAME_FILES jenv"
    "API_URL_PARAMETER_NAME ?jenv' = API_URL_PARAMETER_NAME jenv"
    "API_KEY_SECRET_NAME ?jenv' = API_KEY_SECRET_NAME jenv"
    by (simp_all add: BUCKET_NAME_FILES_def API_URL_PARAMETER_NAME_def API_KEY_SECRET_NAME_def)
  have l: "j_getLabels ?jenv' (BUCKET_NAME_FILES ?jenv') fileId userId key w
      = (Inl (ImageDetectionException m'), w1)"
    using assms(3) same by simp
  show ?thesis
    unfolding processMessage_soft_branch [OF assms(1) l] processMessage_soft_branch [OF assms(1,2)]
    by (simp add: same)
qed


subsection \<open>The claims\<close>

text \<open>
  C1. When the labeling call of a record fails with \<open>NoPersonFoundError\<close> or
  \<open>NoLabelsFoundError\<close> (in the Java handler: with an \<open>ImageDetectionException\<close>) and
  the parameter lookup, the secret lookup and the report all succeed, the processor makes
  exactly one parameter lookup, then one secret lookup, then one report call, and returns
  normally.
\<close>

theorem soft_failure_lookups_then_report:
  "(recordData env rec = Inr (fileId, userId, key)
      \<and> getLabels env (s3BucketFiles env) fileId userId key w = (Inl error, w1)
      \<and> (error_class error = NoPersonFoundError \<or> error_class error = NoLabelsFoundError)
      \<and> getParameter env (apiUrlParameterName env) w1 = (Inr apiUrl, evs1, w2)
      \<and> getSecret env (apiKeySecretName env) w2 = (Inr apiKey, evs2, w3)
      \<and> reportImageIssue env fileId userId apiUrl apiKey w3 = (Inr (), w4)
    \<longrightarrow> recordHandler env rec w =
          (Inr (),
           [GetLabelsCall (s3BucketFiles env) fileId userId key,
            LoggerWarn ''No person found in the image'',
            SsmSend (apiUrlParameterName env),
            SecretsSend (apiKeySecretName env),
            ReportImageIssueCall fileId userId apiUrl apiKey], w4))
   \<and> (messageData dynamodbStreamRecord = Inr (jfileId, juserId, jkey)
      \<and> j_getLabels jenv (BUCKET_NAME_FILES jenv) jfileId juserId jkey jw
          = (Inl (ImageDetectionException m), jw1)
      \<and> ssmProvider_get jenv 900 (API_URL_PARAMETER_NAME jenv) jw1 = (Inr japiUrl, jw2)
      \<and> secretsProvider_get jenv 900 (API_KEY_SECRET_NAME jenv) jw2 = (Inr japiKey, jw3)
      \<and> j_reportImageIssue jenv jfileId juserId japiUrl japiKey jw3 = (Inr (), jw4)
    \<longrightarrow> processMessage jenv dynamodbStreamRecord jw =
          (Inr (),
           [AppendKey ''fileId'' jfileId, AppendKey ''userId'' juserId,
            JGetLabels (BUCKET_NAME_FILES jenv) jfileId juserId jkey,
            JLoggerWarn ''No person found in the image'',
            SsmProviderGet 900 (API_URL_PARAMETER_NAME jenv),
            SecretsProviderGet 900 (API_KEY_SECRET_NAME jenv),
            JReportImageIssue jfileId juserId japiUrl japiKey,
            RemoveKey ''fileId'', RemoveKey ''userId''], jw4))"
  using recordHandler_reports [of env rec fileId userId key w error w1 apiUrl evs1 w2 apiKey evs2 w3 w4]
    processMessage_reports [of dynamodbStreamRecord jfileId juserId jkey jenv jw m jw1 japiUrl jw2 japiKey jw3 jw4]
  by blast

theorem soft_failure_lookups_then_report_witness:
  "recordHandler scripted_env (stream_record ''landscape'') stocked_world =
     (Inr (),
      [GetLabelsCall ''media-files'' (JsString ''landscape'') (JsString ''user-1'')
         (JsString ''transformed/landscape''),
       LoggerWarn ''No person found in the image'',
       SsmSend ''/app/api-url'',
       SecretsSend ''app/api-key'',
       ReportImageIssueCall (JsString ''landscape'') (JsString ''user-1'')
         (JsString ''https://api.example.com/report'') (JsString ''k-123'')],
      stocked_world\<lparr>labelled := [JsString ''landscape''], reported := [JsString ''landscape'']\<rparr>)
   \<and> processMessage cached_jenv (stream_record ''landscape'') cold_jworld =
     (Inr (),
      [AppendKey ''fileId'' (Some ''landscape''), AppendKey ''userId'' (Some ''user-1''),
       JGetLabels (Some ''media-files'') (Some ''landscape'') (Some ''user-1'')
         (Some ''transformed/landscape''),
       JLoggerWarn ''No person found in the image'',
       SsmProviderGet 900 (Some ''/app/api-url''),
       SecretsProviderGet 900 (Some ''app/api-key''),
       JReportImageIssue (Some ''landscape'') (Some ''user-1'')
         (Some ''https://api.example.com/report'') (Some ''k-123''),
       RemoveKey ''fileId'', RemoveKey ''userId''],
      \<lparr>clock = 1,
       ssm_cache = [(''/app/api-url'', Some ''https://api.example.com/report'', 901)],
       secrets_cache = [(''app/api-key'', Some ''k-123'', 901)],
       ssm_reads = [''/app/api-url''], secrets_reads = [''app/api-key'']\<rparr>)"
  using soft_failure_lookups_then_report
    [where env = scripted_env and rec = "stream_record ''landscape''" and w = stocked_world
       and fileId = "JsString ''landscape''" and userId = "JsString ''user-1''"
       and key = "JsString ''transformed/landscape''"
       and error = "JsError NoPersonFoundError ''No person found''"
       and ?w1.0 = "stocked_world\<lparr>labelled := [JsString ''landscape'']\<rparr>"
       and apiUrl = "JsString ''https://api.example.com/report''"
       and ?evs1.0 = "[SsmSend ''/app/api-url'']"
       and ?w2.0 = "stocked_world\<lparr>labelled := [JsString ''landscape'']\<rparr>"
       and apiKey = "JsString ''k-123''"
       and ?evs2.0 = "[SecretsSend ''app/api-key'']"
       and ?w3.0 = "stocked_world\<lparr>labelled := [JsString ''landscape'']\<rparr>"
       and ?w4.0 = "stocked_world\<lparr>labelled := [JsString ''landscape''], reported := [JsString ''landscape'']\<rparr>"
       and jenv = cached_jenv and dynamodbStreamRecord = "stream_record ''landscape''" and jw = cold_jworld
       and jfileId = "Some ''landscape''" and juserId = "Some ''user-1''"
       and jkey = "Some ''transformed/landscape''" and m = "''No person found''"
       and ?jw1.0 = "cold_jworld\<lparr>clock := 1\<rparr>"
       and japiUrl = "Some ''https://api.example.com/report''"
       and ?jw2.0 = "cold_jworld\<lparr>clock := 1,
            ssm_cache := [(''/app/api-url'', Some ''https://api.example.com/report'', 901)],
            ssm_reads := [''/app/api-url'']\<rparr>"
       and japiKey = "Some ''k-123''"
       and ?jw3.0 = "\<lparr>clock = 1,
            ssm_cache = [(''/app/api-url'', Some ''https://api.example.com/report'', 901)],
            secrets_cache = [(''app/api-key'', Some ''k-123'', 901)],
            ssm_reads = [''/app/api-url''], secrets_reads = [''app/api-key'']\<rparr>"
       and ?jw4.0 = "\<lparr>clock = 1,
            ssm_cache = [(''/app/api-url'', Some ''https://api.example.com/report'', 901)],
            secrets_cache = [(''app/api-key'', Some ''k-123'', 901)],
            ssm_reads = [''/app/api-url''], secrets_reads = [''app/api-key'']\<rparr>"]
  by (simp add: scripted_defs lookup_defs scripted_j_defs io_defs)

text \<open>
  C2. When the labeling call of a record fails with an error of any other class, the
  processor makes no parameter lookup, no secret lookup and no report call, and the
  processing of the record ends with that same error.
\<close>

theorem hard_failure_propagates_unchanged:
  "recordData env rec = Inr (fileId, userId, key)
     \<and> getLabels env (s3BucketFiles env) fileId userId key w = (Inl error, w1)
     \<and> error_class error \<noteq> NoPersonFoundError
     \<and> error_class error \<noteq> NoLabelsFoundError
   \<longrightarrow> recordHandler env rec w =
         (Inl error, [GetLabelsCall (s3BucketFiles env) fileId userId key], w1)"
  using recordHandler_rethrows [of env rec fileId userId key w error w1] by blast

theorem hard_failure_propagates_unchanged_witness:
  "recordHandler scripted_env (stream_record ''corrupt'') stocked_world =
     (Inl (JsError (OtherError ''InvalidImageFormatException'') ''Request has invalid image format''),
      [GetLabelsCall ''media-files'' (JsString ''corrupt'') (JsString ''user-1'')
         (JsString ''transformed/corrupt'')],
      stocked_world\<lparr>labelled := [JsString ''corrupt'']\<rparr>)"
  using hard_failure_propagates_unchanged
    [where env = scripted_env and rec = "stream_record ''corrupt''" and w = stocked_world
       and fileId = "JsString ''corrupt''" and userId = "JsString ''user-1''"
       and key = "JsString ''transformed/corrupt''"
       and error = "JsError (OtherError ''InvalidImageFormatException'') ''Request has invalid image format''"
       and ?w1.0 = "stocked_world\<lparr>labelled := [JsString ''corrupt'']\<rparr>"]
  by (simp add: scripted_defs)

text \<open>
  C3. The soft-failure classification recognises exactly two classes of error,
  \<open>NoPersonFoundError\<close> and \<open>NoLabelsFoundError\<close>, and treats both alike: the warning
  is logged, the parameter and the secret are fetched, the issue is reported and the
  error is swallowed, and the run is the same whichever of the two was raised. An error
  of any other class is a hard failure: it is rethrown and nothing else is done. In the
  Java handler the soft failures are the instances of \<open>ImageDetectionException\<close>,
  treated alike in the same way, and every other throwable is rethrown.
\<close>

theorem soft_failure_is_exactly_two_classes:
  "(recordData env rec = Inr (fileId, userId, key)
      \<and> getLabels env (s3BucketFiles env) fileId userId key w = (Inl error, w1)
    \<longrightarrow>
      (error_class error = NoPersonFoundError \<or> error_class error = NoLabelsFoundError
         \<longrightarrow> recordHandler env rec w =
             (case io_bind (getParameter env (apiUrlParameterName env))
                     (\<lambda>apiUrl. io_bind (getSecret env (apiKeySecretName env))
                        (\<lambda>apiKey. io_call (ReportImageIssueCall fileId userId apiUrl apiKey)
                           (reportImageIssue env fileId userId apiUrl apiKey))) w1 of
                (r, evs, w') \<Rightarrow>
                  (r, GetLabelsCall (s3BucketFiles env) fileId userId key
                        # LoggerWarn ''No person found in the image'' # evs, w')))
      \<and> (error_class error = NoPersonFoundError \<or> error_class error = NoLabelsFoundError
         \<longrightarrow> (\<exists>r evs w'. recordHandler env rec w =
               (r, GetLabelsCall (s3BucketFiles env) fileId userId key
                     # LoggerWarn ''No person found in the image''
                     # SsmSend (apiUrlParameterName env) # evs, w')))
      \<and> ((error_class error = NoPersonFoundError \<or> error_class error = NoLabelsFoundError)
           \<and> getParameter env (apiUrlParameterName env) w1 = (Inr apiUrl, evs1, w2)
           \<and> getSecret env (apiKeySecretName env) w2 = (Inr apiKey, evs2, w3)
           \<and> reportImageIssue env fileId userId apiUrl apiKey w3 = (Inr (), w4)
         \<longrightarrow> recordHandler env rec w =
               (Inr (),
                [GetLabelsCall (s3BucketFiles env) fileId userId key,
                 LoggerWarn ''No person found in the image'',
                 SsmSend (apiUrlParameterName env),
                 SecretsSend (apiKeySecretName env),
                 ReportImageIssueCall fileId userId apiUrl apiKey], w4))
      \<and> (error_class error \<noteq> NoPersonFoundError \<and> error_class error \<noteq> NoLabelsFoundError
         \<longrightarrow> recordHandler env rec w =
               (Inl error, [GetLabelsCall (s3BucketFiles env) fileId userId key], w1))
      \<and> ((error_class error = NoPersonFoundError \<or> error_class error = NoLabelsFoundError)
           \<and> (error_class error' = NoPersonFoundError \<or> error_class error' = NoLabelsFoundError)
           \<and> g (s3BucketFiles env) fileId userId key w = (Inl error', w1)
         \<longrightarrow> recordHandler (env\<lparr>getLabels := g\<rparr>) rec w = recordHandler env rec w))
   \<and> (messageData jrec = Inr (jfileId, juserId, jkey)
      \<and> j_getLabels jenv (BUCKET_NAME_FILES jenv) jfileId juserId jkey jw = (Inl e, jw1)
    \<longrightarrow>
      (e = ImageDetectionException m
         \<longrightarrow> processMessage jenv jrec jw =
             (case io_bind
                     (io_call (SsmProviderGet 900 (API_URL_PARAMETER_NAME jenv))
                        (ssmProvider_get jenv 900 (API_URL_PARAMETER_NAME jenv)))
                     (\<lambda>apiUrl. io_bind
                        (io_call (SecretsProviderGet 900 (API_KEY_SECRET_NAME jenv))
                           (secretsProvider_get jenv 900 (API_KEY_SECRET_NAME jenv)))
                        (\<lambda>apiKey. io_call (JReportImageIssue jfileId juserId apiUrl apiKey)
                           (j_reportImageIssue jenv jfileId juserId apiUrl apiKey))) jw1 of
                (r, evs, w') \<Rightarrow>
                  (r, [AppendKey ''fileId'' jfileId, AppendKey ''userId'' juserId,
                       JGetLabels (BUCKET_NAME_FILES jenv) jfileId juserId jkey,
                       JLoggerWarn ''No person found in the image'']
                      @ evs @ [RemoveKey ''fileId'', RemoveKey ''userId''], w')))
      \<and> (e = ImageDetectionException m
           \<and> ssmProvider_get jenv 900 (API_URL_PARAMETER_NAME jenv) jw1 = (Inr japiUrl, jw2)
           \<and> secretsProvider_get jenv 900 (API_KEY_SECRET_NAME jenv) jw2 = (Inr japiKey, jw3)
           \<and> j_reportImageIssue jenv jfileId juserId japiUrl japiKey jw3 = (Inr (), jw4)
         \<longrightarrow> processMessage jenv jrec jw =
               (Inr (),
                [AppendKey ''fileId'' jfileId, AppendKey ''userId'' juserId,
                 JGetLabels (BUCKET_NAME_FILES jenv) jfileId juserId jkey,
                 JLoggerWarn ''No person found in the image'',
                 SsmProviderGet 900 (API_URL_PARAMETER_NAME jenv),
                 SecretsProviderGet 900 (API_KEY_SECRET_NAME jenv),
                 JReportImageIssue jfileId juserId japiUrl japiKey,
                 RemoveKey ''fileId'', RemoveKey ''userId''], jw4))
      \<and> ((\<forall>m'. e \<noteq> ImageDetectionException m')
         \<longrightarrow> processMessage jenv jrec jw =
               (Inl e,
                [AppendKey ''fileId'' jfileId, AppendKey ''userId'' juserId,
                 JGetLabels (BUCKET_NAME_FILES jenv) jfileId juserId jkey,
                 RemoveKey ''fileId'', RemoveKey ''userId''], jw1))
      \<and> (e = ImageDetectionException m
           \<and> jg (BUCKET_NAME_FILES jenv) jfileId juserId jkey jw
               = (Inl (ImageDetectionException m'), jw1)
         \<longrightarrow> processMessage (jenv\<lparr>j_getLabels := jg\<rparr>) jrec jw = processMessage jenv jrec jw))"
proof (intro conjI impI; (elim conjE)?)
  assume h: "recordData env rec = Inr (fileId, userId, key)"
    "getLabels env (s3BucketFiles env) fileId userId key w = (Inl error, w1)"
    and soft: "error_class error = NoPersonFoundError \<or> error_class error = NoLabelsFoundError"
  show "recordHandler env rec w =
      (case io_bind (getParameter env (apiUrlParameterName env))
              (\<lambda>apiUrl. io_bind (getSecret env (apiKeySecretName env))
                 (\<lambda>apiKey. io_call (ReportImageIssueCall fileId userId apiUrl apiKey)
                    (reportImageIssue env fileId userId apiUrl apiKey))) w1 of
         (r, evs, w') \<Rightarrow>
           (r, GetLabelsCall (s3BucketFiles env) fileId userId key
                 # LoggerWarn ''No person found in the image'' # evs, w'))"
    by (rule recordHandler_soft_branch [OF h soft])
  show "\<exists>r evs w'. recordHandler env rec w =
      (r, GetLabelsCall (s3BucketFiles env) fileId userId key
            # LoggerWarn ''No person found in the image''
            # SsmSend (apiUrlParameterName env) # evs, w')"
    by (rule soft_branch_starts_lookup [OF h soft])
next
  assume "recordData env rec = Inr (fileId, userId, key)"
    "getLabels env (s3BucketFiles env) fileId userId key w = (Inl error, w1)"
    "error_class error = NoPersonFoundError \<or> error_class error = NoLabelsFoundError"
    "getParameter env (apiUrlParameterName env) w1 = (Inr apiUrl, evs1, w2)"
    "getSecret env (apiKeySecretName env) w2 = (Inr apiKey, evs2, w3)"
    "reportImageIssue env fileId userId apiUrl apiKey w3 = (Inr (), w4)"
  then show "recordHandler env rec w =
      (Inr (),
       [GetLabelsCall (s3BucketFiles env) fileId userId key,
        LoggerWarn ''No person found in the image'',
        SsmSend (apiUrlParameterName env),
        SecretsSend (apiKeySecretName env),
        ReportImageIssueCall fileId userId apiUrl apiKey], w4)"
    by (rule recordHandler_reports)
next
  assume "recordData env rec = Inr (fileId, userId, key)"
    "getLabels env (s3BucketFiles env) fileId userId key w = (Inl error, w1)"
    "error_class error \<noteq> NoPersonFoundError" "error_class error \<noteq> NoLabelsFoundError"
  then show "recordHandler env rec w =
      (Inl error, [GetLabelsCall (s3BucketFiles env) fileId userId key], w1)"
    by (rule recordHandler_rethrows)
next
  assume "recordData env rec = Inr (fileId, userId, key)"
    "getLabels env (s3BucketFiles env) fileId userId key w = (Inl error, w1)"
    "error_class error = NoPersonFoundError \<or> error_class error = NoLabelsFoundError"
    "error_class error' = NoPersonFoundError \<or> error_class error' = NoLabelsFoundError"
    "g (s3BucketFiles env) fileId userId key w = (Inl error', w1)"
  then show "recordHandler (env\<lparr>getLabels := g\<rparr>) rec w = recordHandler env rec w"
    by (rule soft_branch_ignores_class)
next
  assume h: "messageData jrec = Inr (jfileId, juserId, jkey)"
    "j_getLabels jenv (BUCKET_NAME_FILES jenv) jfileId juserId jkey jw = (Inl e, jw1)"
    "e = ImageDetectionException m"
  show "processMessage jenv jrec jw =
      (case io_bind
              (io_call (SsmProviderGet 900 (API_URL_PARAMETER_NAME jenv))
                 (ssmProvider_get jenv 900 (API_URL_PARAMETER_NAME jenv)))
              (\<lambda>apiUrl. io_bind
                 (io_call (SecretsProviderGet 900 (API_KEY_SECRET_NAME jenv))
                    (secretsProvider_get jenv 900 (API_KEY_SECRET_NAME jenv)))
                 (\<lambda>apiKey. io_call (JReportImageIssue jfileId juserId apiUrl apiKey)
                    (j_reportImageIssue jenv jfileId juserId apiUrl apiKey))) jw1 of
         (r, evs, w') \<Rightarrow>
           (r, [AppendKey ''fileId'' jfileId, AppendKey ''userId'' juserId,
                JGetLabels (BUCKET_NAME_FILES jenv) jfileId juserId jkey,
                JLoggerWarn ''No person found in the image'']
               @ evs @ [RemoveKey ''fileId'', RemoveKey ''userId''], w'))"
    using h by (simp add: processMessage_soft_branch)
next
  assume "messageData jrec = Inr (jfileId, juserId, jkey)"
    "j_getLabels jenv (BUCKET_NAME_FILES jenv) jfileId juserId jkey jw = (Inl e, jw1)"
    "e = ImageDetectionException m"
    "ssmProvider_get jenv 900 (API_URL_PARAMETER_NAME jenv) jw1 = (Inr japiUrl, jw2)"
    "secretsProvider_get jenv 900 (API_KEY_SECRET_NAME jenv) jw2 = (Inr japiKey, jw3)"
    "j_reportImageIssue jenv jfileId juserId japiUrl japiKey jw3 = (Inr (), jw4)"
  then show "processMessage jenv jrec jw =
      (Inr (),
       [AppendKey ''fileId'' jfileId, AppendKey ''userId'' juserId,
        JGetLabels (BUCKET_NAME_FILES jenv) jfileId juserId jkey,
        JLoggerWarn ''No person found in the image'',
        SsmProviderGet 900 (API_URL_PARAMETER_NAME jenv),
        SecretsProviderGet 900 (API_KEY_SECRET_NAME jenv),
        JReportImageIssue jfileId juserId japiUrl japiKey,
        RemoveKey ''fileId'', RemoveKey ''userId''], jw4)"
    using processMessage_reports [of jrec jfileId juserId jkey jenv jw m jw1 japiUrl jw2 japiKey jw3 jw4]
    by simp
next
  assume "messageData jrec = Inr (jfileId, juserId, jkey)"
    "j_getLabels jenv (BUCKET_NAME_FILES jenv) jfileId juserId jkey jw = (Inl e, jw1)"
    "\<forall>m'. e \<noteq> ImageDetectionException m'"
  then show "processMessage jenv jrec jw =
      (Inl e,
       [AppendKey ''fileId'' jfileId, AppendKey ''userId'' juserId,
        JGetLabels (BUCKET_NAME_FILES jenv) jfileId juserId jkey,
        RemoveKey ''fileId'', RemoveKey ''userId''], jw1)"
    by (rule processMessage_rethrows)
next
  assume "messageData jrec = Inr (jfileId, juserId, jkey)"
    "j_getLabels jenv (BUCKET_NAME_FILES jenv) jfileId juserId jkey jw = (Inl e, jw1)"
    "e = ImageDetectionException m"
    "jg (BUCKET_NAME_FILES jenv) jfileId juserId jkey jw = (Inl (ImageDetectionException m'), jw1)"
  then show "processMessage (jenv\<lparr>j_getLabels := jg\<rparr>) jrec jw = processMessage jenv jrec jw"
    using processMessage_ignores_instance [of jrec jfileId juserId jkey jenv jw m jw1 jg m']
    by simp
qed

theorem soft_failure_is_exactly_two_classes_witness:
  "recordHandler scripted_env (stream_record ''landscape'') stocked_world =
     (Inr (),
      [GetLabelsCall ''media-files'' (JsString ''landscape'') (JsString ''user-1'')
         (JsString ''transformed/landscape''),
       LoggerWarn ''No person found in the image'',
       SsmSend ''/app/api-url'',
       SecretsSend ''app/api-key'',
       ReportImageIssueCall (JsString ''landscape'') (JsString ''user-1'')
         (JsString ''https://api.example.com/report'') (JsString ''k-123'')],
      stocked_world\<lparr>labelled := [JsString ''landscape''], reported := [JsString ''landscape'']\<rparr>)
   \<and> recordHandler scripted_env (stream_record ''blank'') stocked_world =
     (Inr (),
      [GetLabelsCall ''media-files'' (JsString ''blank'') (JsString ''user-1'')
         (JsString ''transformed/blank''),
       LoggerWarn ''No person found in the image'',
       SsmSend ''/app/api-url'',
       SecretsSend ''app/api-key'',
       ReportImageIssueCall (JsString ''blank'') (JsString ''user-1'')
         (JsString ''https://api.example.com/report'') (JsString ''k-123'')],
      stocked_world\<lparr>labelled := [JsString ''blank''], reported := [JsString ''blank'']\<rparr>)
   \<and> recordHandler
       (scripted_env\<lparr>getLabels := \<lambda>bucket fileId userId key w.
          (Inl (JsError NoLabelsFoundError ''No labels found''), w\<lparr>labelled := labelled w @ [fileId]\<rparr>)\<rparr>)
       (stream_record ''landscape'') stocked_world
     = recordHandler scripted_env (stream_record ''landscape'') stocked_world
   \<and> recordHandler scripted_env (stream_record ''corrupt'') stocked_world =
       (Inl (JsError (OtherError ''InvalidImageFormatException'') ''Request has invalid image format''),
        [GetLabelsCall ''media-files'' (JsString ''corrupt'') (JsString ''user-1'')
           (JsString ''transformed/corrupt'')],
        stocked_world\<lparr>labelled := [JsString ''corrupt'']\<rparr>)
   \<and> processMessage cached_jenv (stream_record ''blank'') cold_jworld =
     (Inr (),
      [AppendKey ''fileId'' (Some ''blank''), AppendKey ''userId'' (Some ''user-1''),
       JGetLabels (Some ''media-files'') (Some ''blank'') (Some ''user-1'')
         (Some ''transformed/blank''),
       JLoggerWarn ''No person found in the image'',
       SsmProviderGet 900 (Some ''/app/api-url''),
       SecretsProviderGet 900 (Some ''app/api-key''),
       JReportImageIssue (Some ''blank'') (Some ''user-1'')
         (Some ''https://api.example.com/report'') (Some ''k-123''),
       RemoveKey ''fileId'', RemoveKey ''userId''],
      \<lparr>clock = 1,
       ssm_cache = [(''/app/api-url'', Some ''https://api.example.com/report'', 901)],
       secrets_cache = [(''app/api-key'', Some ''k-123'', 901)],
       ssm_reads = [''/app/api-url''], secrets_reads = [''app/api-key'']\<rparr>)
   \<and> processMessage cached_jenv (stream_record ''corrupt'') cold_jworld =
     (Inl (OtherThrowable ''InvalidImageFormatException'' ''Request has invalid image format''),
      [AppendKey ''fileId'' (Some ''corrupt''), AppendKey ''userId'' (Some ''user-1''),
       JGetLabels (Some ''media-files'') (Some ''corrupt'') (Some ''user-1'')
         (Some ''transformed/corrupt''),
       RemoveKey ''fileId'', RemoveKey ''userId''],
      cold_jworld\<lparr>clock := 1\<rparr>)
   \<and> processMessage
       (cached_jenv\<lparr>j_getLabels := \<lambda>bucket fileId userId key w.
          (Inl (ImageDetectionException ''No person found''), w\<lparr>clock := clock w + 1\<rparr>)\<rparr>)
       (stream_record ''blank'') cold_jworld
     = processMessage cached_jenv (stream_record ''blank'') cold_jworld"
proof -
  let ?g = "\<lambda>bucket fileId userId key w.
      (Inl (JsError NoLabelsFoundError ''No labels found'') :: js_error + unit,
       w\<lparr>labelled := labelled w @ [fileId]\<rparr>)"
  let ?jg = "\<lambda>bucket fileId userId key w.
      (Inl (ImageDetectionException ''No person found'') :: throwable + unit,
       w\<lparr>clock := clock w + 1\<rparr>)"
  let ?warm = "\<lparr>clock = 1,
       ssm_cache = [(''/app/api-url'', Some ''https://api.example.com/report'', 901)],
       secrets_cache = [(''app/api-key'', Some ''k-123'', 901)],
       ssm_reads = [''/app/api-url''], secrets_reads = [''app/api-key'']\<rparr>"
  have person: "recordHandler scripted_env (stream_record ''landscape'') stocked_world =
     (Inr (),
      [GetLabelsCall ''media-files'' (JsString ''landscape'') (JsString ''user-1'')
         (JsString ''transformed/landscape''),
       LoggerWarn ''No person found in the image'',
       SsmSend ''/app/api-url'',
       SecretsSend ''app/api-key'',
       ReportImageIssueCall (JsString ''landscape'') (JsString ''user-1'')
         (JsString ''https://api.example.com/report'') (JsString ''k-123'')],
      stocked_world\<lparr>labelled := [JsString ''landscape''], reported := [JsString ''landscape'']\<rparr>)"
   and swap: "recordHandler (scripted_env\<lparr>getLabels := ?g\<rparr>)
       (stream_record ''landscape'') stocked_world
     = recordHandler scripted_env (stream_record ''landscape'') stocked_world"
    using soft_failure_is_exactly_two_classes
      [where env = scripted_env and w = stocked_world and userId = "JsString ''user-1''"
       and apiUrl = "JsString ''https://api.example.com/report''"
       and ?evs1.0 = "[SsmSend ''/app/api-url'']"
       and apiKey = "JsString ''k-123''"
       and ?evs2.0 = "[SecretsSend ''app/api-key'']"
       and error' = "JsError NoLabelsFoundError ''No labels found''"
       and g = ?g
       and rec = "stream_record ''landscape''"
         and fileId = "JsString ''landscape''" and key = "JsString ''transformed/landscape''"
         and error = "JsError NoPersonFoundError ''No person found''"
         and ?w1.0 = "stocked_world\<lparr>labelled := [JsString ''landscape'']\<rparr>"
         and ?w2.0 = "stocked_world\<lparr>labelled := [JsString ''landscape'']\<rparr>"
         and ?w3.0 = "stocked_world\<lparr>labelled := [JsString ''landscape'']\<rparr>"
         and ?w4.0 = "stocked_world\<lparr>labelled := [JsString ''landscape''],
                        reported := [JsString ''landscape'']\<rparr>",
       THEN conjunct1]
    by (simp_all add: scripted_defs lookup_defs io_defs)
  have labels: "recordHandler scripted_env (stream_record ''blank'') stocked_world =
     (Inr (),
      [GetLabelsCall ''media-files'' (JsString ''blank'') (JsString ''user-1'')
         (JsString ''transformed/blank''),
       LoggerWarn ''No person found in the image'',
       SsmSend ''/app/api-url'',
       SecretsSend ''app/api-key'',
       ReportImageIssueCall (JsString ''blank'') (JsString ''user-1'')
         (JsString ''https://api.example.com/report'') (JsString ''k-123'')],
      stocked_world\<lparr>labelled := [JsString ''blank''], reported := [JsString ''blank'']\<rparr>)"
    using soft_failure_is_exactly_two_classes
      [where env = scripted_env and w = stocked_world and userId = "JsString ''user-1''"
       and apiUrl = "JsString ''https://api.example.com/report''"
       and ?evs1.0 = "[SsmSend ''/app/api-url'']"
       and apiKey = "JsString ''k-123''"
       and ?evs2.0 = "[SecretsSend ''app/api-key'']"
       and error' = "JsError NoLabelsFoundError ''No labels found''"
       and g = ?g
       and rec = "stream_record ''blank''"
         and fileId = "JsString ''blank''" and key = "JsString ''transformed/blank''"
         and error = "JsError NoLabelsFoundError ''No labels found''"
         and ?w1.0 = "stocked_world\<lparr>labelled := [JsString ''blank'']\<rparr>"
         and ?w2.0 = "stocked_world\<lparr>labelled := [JsString ''blank'']\<rparr>"
         and ?w3.0 = "stocked_world\<lparr>labelled := [JsString ''blank'']\<rparr>"
         and ?w4.0 = "stocked_world\<lparr>labelled := [JsString ''blank''],
                        reported := [JsString ''blank'']\<rparr>",
       THEN conjunct1]
    by (simp add: scripted_defs lookup_defs io_defs)
  have hard: "recordHandler scripted_env (stream_record ''corrupt'') stocked_world =
       (Inl (JsError (OtherError ''InvalidImageFormatException'') ''Request has invalid image format''),
        [GetLabelsCall ''media-files'' (JsString ''corrupt'') (JsString ''user-1'')
           (JsString ''transformed/corrupt'')],
        stocked_world\<lparr>labelled := [JsString ''corrupt'']\<rparr>)"
    using soft_failure_is_exactly_two_classes
      [where env = scripted_env and w = stocked_world and userId = "JsString ''user-1''"
       and apiUrl = "JsString ''https://api.example.com/report''"
       and ?evs1.0 = "[SsmSend ''/app/api-url'']"
       and apiKey = "JsString ''k-123''"
       and ?evs2.0 = "[SecretsSend ''app/api-key'']"
       and error' = "JsError NoLabelsFoundError ''No labels found''"
       and g = ?g
       and rec = "stream_record ''corrupt''"
         and fileId = "JsString ''corrupt''" and key = "JsString ''transformed/corrupt''"
         and error = "JsError (OtherError ''InvalidImageFormatException'')
                        ''Request has invalid image format''"
         and ?w1.0 = "stocked_world\<lparr>labelled := [JsString ''corrupt'']\<rparr>"
         and ?w2.0 = "stocked_world\<lparr>labelled := [JsString ''corrupt'']\<rparr>"
         and ?w3.0 = "stocked_world\<lparr>labelled := [JsString ''corrupt'']\<rparr>"
         and ?w4.0 = "stocked_world\<lparr>labelled := [JsString ''corrupt'']\<rparr>",
       THEN conjunct1]
    by (simp add: scripted_defs)
  have j_soft: "processMessage cached_jenv (stream_record ''blank'') cold_jworld =
     (Inr (),
      [AppendKey ''fileId'' (Some ''blank''), AppendKey ''userId'' (Some ''user-1''),
       JGetLabels (Some ''media-files'') (Some ''blank'') (Some ''user-1'')
         (Some ''transformed/blank''),
       JLoggerWarn ''No person found in the image'',
       SsmProviderGet 900 (Some ''/app/api-url''),
       SecretsProviderGet 900 (Some ''app/api-key''),
       JReportImageIssue (Some ''blank'') (Some ''user-1'')
         (Some ''https://api.example.com/report'') (Some ''k-123''),
       RemoveKey ''fileId'', RemoveKey ''userId''], ?warm)"
   and j_swap: "processMessage (cached_jenv\<lparr>j_getLabels := ?jg\<rparr>)
       (stream_record ''blank'') cold_jworld
     = processMessage cached_jenv (stream_record ''blank'') cold_jworld"
    using soft_failure_is_exactly_two_classes
      [where jenv = cached_jenv and jw = cold_jworld and juserId = "Some ''user-1''"
       and ?jw1.0 = "cold_jworld\<lparr>clock := 1\<rparr>"
       and japiUrl = "Some ''https://api.example.com/report''"
       and ?jw2.0 = "\<lparr>clock = 1,
            ssm_cache = [(''/app/api-url'', Some ''https://api.example.com/report'', 901)],
            secrets_cache = [],
            ssm_reads = [''/app/api-url''], secrets_reads = []\<rparr>"
       and japiKey = "Some ''k-123''"
       and ?jw3.0 = ?warm and ?jw4.0 = ?warm
       and m' = "''No person found''" and jg = ?jg
       and jrec = "stream_record ''blank''" and jfileId = "Some ''blank''"
         and jkey = "Some ''transformed/blank''"
         and e = "ImageDetectionException ''No labels found''" and m = "''No labels found''",
       THEN conjunct2]
    by (simp_all add: scripted_j_defs scripted_variables_def stream_record_def io_defs)
  have j_hard: "processMessage cached_jenv (stream_record ''corrupt'') cold_jworld =
     (Inl (OtherThrowable ''InvalidImageFormatException'' ''Request has invalid image format''),
      [AppendKey ''fileId'' (Some ''corrupt''), AppendKey ''userId'' (Some ''user-1''),
       JGetLabels (Some ''media-files'') (Some ''corrupt'') (Some ''user-1'')
         (Some ''transformed/corrupt''),
       RemoveKey ''fileId'', RemoveKey ''userId''],
      cold_jworld\<lparr>clock := 1\<rparr>)"
    using soft_failure_is_exactly_two_classes
      [where jenv = cached_jenv and jw = cold_jworld and juserId = "Some ''user-1''"
       and ?jw1.0 = "cold_jworld\<lparr>clock := 1\<rparr>"
       and japiUrl = "Some ''https://api.example.com/report''"
       and ?jw2.0 = "\<lparr>clock = 1,
            ssm_cache = [(''/app/api-url'', Some ''https://api.example.com/report'', 901)],
            secrets_cache = [],
            ssm_reads = [''/app/api-url''], secrets_reads = []\<rparr>"
       and japiKey = "Some ''k-123''"
       and ?jw3.0 = ?warm and ?jw4.0 = ?warm
       and m' = "''No person found''" and jg = ?jg
       and jrec = "stream_record ''corrupt''" and jfileId = "Some ''corrupt''"
         and jkey = "Some ''transformed/corrupt''"
         and e = "OtherThrowable ''InvalidImageFormatException'' ''Request has invalid image format''"
         and m = "''No labels found''",
       THEN conjunct2]
    by (simp add: scripted_j_defs scripted_variables_def stream_record_def)
  show ?thesis
    using person labels swap hard j_soft j_hard j_swap by simp
qed

text \<open>
  C4. When the labeling call of a record succeeds, the processor makes no parameter
  lookup, no secret lookup and no report call: the labeling call is its only effect.
\<close>

theorem success_makes_no_further_call:
  "recordData env rec = Inr (fileId, userId, key)
     \<and> getLabels env (s3BucketFiles env) fileId userId key w = (Inr (), w1)
   \<longrightarrow> recordHandler env rec w =
         (Inr (), [GetLabelsCall (s3BucketFiles env) fileId userId key], w1)"
  using recordHandler_returns [of env rec fileId userId key w w1] by blast

theorem success_makes_no_further_call_witness:
  "recordHandler scripted_env (stream_record ''portrait'') stocked_world =
     (Inr (),
      [GetLabelsCall ''media-files'' (JsString ''portrait'') (JsString ''user-1'')
         (JsString ''transformed/portrait'')],
      stocked_world\<lparr>labelled := [JsString ''portrait'']\<rparr>)"
  using success_makes_no_further_call
    [where env = scripted_env and rec = "stream_record ''portrait''" and w = stocked_world
       and fileId = "JsString ''portrait''" and userId = "JsString ''user-1''"
       and key = "JsString ''transformed/portrait''"
       and ?w1.0 = "stocked_world\<lparr>labelled := [JsString ''portrait'']\<rparr>"]
  by (simp add: scripted_defs)

text \<open>
  C5. In the handler that walks the batch in sequence: of three records, when the
  labeling of the first succeeds and the labeling of the second fails hard, the first
  is processed, the second aborts the invocation, and nothing is called for the third,
  whatever it is.
\<close>

theorem hard_failure_aborts_batch:
  "recordData env rec1 = Inr (fileId1, userId1, key1)
     \<and> getLabels env (s3BucketFiles env) fileId1 userId1 key1 w = (Inr (), w1)
     \<and> recordData env rec2 = Inr (fileId2, userId2, key2)
     \<and> getLabels env (s3BucketFiles env) fileId2 userId2 key2 w1 = (Inl error, w2)
     \<and> error_class error \<noteq> NoPersonFoundError
     \<and> error_class error \<noteq> NoLabelsFoundError
   \<longrightarrow> handler env \<lparr>Records = [rec1, rec2, rec3]\<rparr> w =
         (Inl (JsError Error ''Error processing record''),
          [GetLabelsCall (s3BucketFiles env) fileId1 userId1 key1,
           GetLabelsCall (s3BucketFiles env) fileId2 userId2 key2], w2)"
proof (intro impI, elim conjE)
  assume d1: "recordData env rec1 = Inr (fileId1, userId1, key1)"
    and l1: "getLabels env (s3BucketFiles env) fileId1 userId1 key1 w = (Inr (), w1)"
    and d2: "recordData env rec2 = Inr (fileId2, userId2, key2)"
    and l2: "getLabels env (s3BucketFiles env) fileId2 userId2 key2 w1 = (Inl error, w2)"
    and c: "error_class error \<noteq> NoPersonFoundError" "error_class error \<noteq> NoLabelsFoundError"
  have second: "processRecords env [rec2, rec3] w1 =
      (Inl (JsError Error ''Error processing record''),
       [GetLabelsCall (s3BucketFiles env) fileId2 userId2 key2], w2)"
    by (rule processRecords_aborts [OF recordHandler_rethrows [OF d2 l2 c]])
  show "handler env \<lparr>Records = [rec1, rec2, rec3]\<rparr> w =
         (Inl (JsError Error ''Error processing record''),
          [GetLabelsCall (s3BucketFiles env) fileId1 userId1 key1,
           GetLabelsCall (s3BucketFiles env) fileId2 userId2 key2], w2)"
    using processRecords_next [OF recordHandler_returns [OF d1 l1] second]
    by (simp add: handler_def)
qed

theorem hard_failure_aborts_batch_witness:
  "handler scripted_env
     \<lparr>Records = [stream_record ''portrait'', stream_record ''corrupt'', stream_record ''landscape'']\<rparr>
     stocked_world =
     (Inl (JsError Error ''Error processing record''),
      [GetLabelsCall ''media-files'' (JsString ''portrait'') (JsString ''user-1'')
         (JsString ''transformed/portrait''),
       GetLabelsCall ''media-files'' (JsString ''corrupt'') (JsString ''user-1'')
         (JsString ''transformed/corrupt'')],
      stocked_world\<lparr>labelled := [JsString ''portrait'', JsString ''corrupt'']\<rparr>)"
  using hard_failure_aborts_batch
    [where env = scripted_env and ?rec1.0 = "stream_record ''portrait''"
       and ?rec2.0 = "stream_record ''corrupt''" and ?rec3.0 = "stream_record ''landscape''"
       and w = stocked_world
       and ?fileId1.0 = "JsString ''portrait''" and ?userId1.0 = "JsString ''user-1''"
       and ?key1.0 = "JsString ''transformed/portrait''"
       and ?w1.0 = "stocked_world\<lparr>labelled := [JsString ''portrait'']\<rparr>"
       and ?fileId2.0 = "JsString ''corrupt''" and ?userId2.0 = "JsString ''user-1''"
       and ?key2.0 = "JsString ''transformed/corrupt''"
       and error = "JsError (OtherError ''InvalidImageFormatException'') ''Request has invalid image format''"
       and ?w2.0 = "stocked_world\<lparr>labelled := [JsString ''portrait'', JsString ''corrupt'']\<rparr>"]
  by (simp add: scripted_defs)

text \<open>
  C6. In a soft-failure branch, a parameter value or secret value that is missing
  (absent or empty) makes its lookup fail with an \<open>Error\<close> whose message names the
  parameter or the secret; that error ends the processing of the record, and
  \<open>reportImageIssue\<close> is not called.
\<close>

theorem missing_value_fails_lookup_and_skips_report:
  "(ssmClient_send env n w = (Inr presponse, w')
      \<and> (Parameter_Value presponse = None \<or> Parameter_Value presponse = Some [])
    \<longrightarrow> getParameter env n w =
          (Inl (JsError Error (''Unable to get parameter '' @ n)), [SsmSend n], w'))
   \<and> (secretsClient_send env n w = (Inr sresponse, w')
      \<and> (SecretString sresponse = None \<or> SecretString sresponse = Some [])
    \<longrightarrow> getSecret env n w =
          (Inl (JsError Error (''Unable to get secret '' @ n)), [SecretsSend n], w'))
   \<and> (recordData env rec = Inr (fileId, userId, key)
      \<and> getLabels env (s3BucketFiles env) fileId userId key w0 = (Inl error, w1)
      \<and> (error_class error = NoPersonFoundError \<or> error_class error = NoLabelsFoundError)
    \<longrightarrow>
      (ssmClient_send env (apiUrlParameterName env) w1 = (Inr presponse, w2)
         \<and> (Parameter_Value presponse = None \<or> Parameter_Value presponse = Some [])
       \<longrightarrow> recordHandler env rec w0 =
             (Inl (JsError Error (''Unable to get parameter '' @ apiUrlParameterName env)),
              [GetLabelsCall (s3BucketFiles env) fileId userId key,
               LoggerWarn ''No person found in the image'',
               SsmSend (apiUrlParameterName env)], w2))
      \<and> (getParameter env (apiUrlParameterName env) w1 = (Inr apiUrl, evs1, w2)
         \<and> secretsClient_send env (apiKeySecretName env) w2 = (Inr sresponse, w3)
         \<and> (SecretString sresponse = None \<or> SecretString sresponse = Some [])
       \<longrightarrow> recordHandler env rec w0 =
             (Inl (JsError Error (''Unable to get secret '' @ apiKeySecretName env)),
              [GetLabelsCall (s3BucketFiles env) fileId userId key,
               LoggerWarn ''No person found in the image'',
               SsmSend (apiUrlParameterName env),
               SecretsSend (apiKeySecretName env)], w3)))"
proof (intro conjI impI)
  assume "ssmClient_send env n w = (Inr presponse, w')
      \<and> (Parameter_Value presponse = None \<or> Parameter_Value presponse = Some [])"
  then show "getParameter env n w =
      (Inl (JsError Error (''Unable to get parameter '' @ n)), [SsmSend n], w')"
    by (elim conjE) (rule getParameter_missing)
next
  assume "secretsClient_send env n w = (Inr sresponse, w')
      \<and> (SecretString sresponse = None \<or> SecretString sresponse = Some [])"
  then show "getSecret env n w =
      (Inl (JsError Error (''Unable to get secret '' @ n)), [SecretsSend n], w')"
    by (elim conjE) (rule getSecret_missing)
next
  assume soft: "recordData env rec = Inr (fileId, userId, key)
      \<and> getLabels env (s3BucketFiles env) fileId userId key w0 = (Inl error, w1)
      \<and> (error_class error = NoPersonFoundError \<or> error_class error = NoLabelsFoundError)"
    and missing: "ssmClient_send env (apiUrlParameterName env) w1 = (Inr presponse, w2)
      \<and> (Parameter_Value presponse = None \<or> Parameter_Value presponse = Some [])"
  have "getParameter env (apiUrlParameterName env) w1 =
      (Inl (JsError Error (''Unable to get parameter '' @ apiUrlParameterName env)),
       [SsmSend (apiUrlParameterName env)], w2)"
    using missing by (elim conjE) (rule getParameter_missing)
  with soft show "recordHandler env rec w0 =
      (Inl (JsError Error (''Unable to get parameter '' @ apiUrlParameterName env)),
       [GetLabelsCall (s3BucketFiles env) fileId userId key,
        LoggerWarn ''No person found in the image'',
        SsmSend (apiUrlParameterName env)], w2)"
    by (elim conjE) (rule recordHandler_parameter_fails)
next
  assume soft: "recordData env rec = Inr (fileId, userId, key)
      \<and> getLabels env (s3BucketFiles env) fileId userId key w0 = (Inl error, w1)
      \<and> (error_class error = NoPersonFoundError \<or> error_class error = NoLabelsFoundError)"
    and missing: "getParameter env (apiUrlParameterName env) w1 = (Inr apiUrl, evs1, w2)
      \<and> secretsClient_send env (apiKeySecretName env) w2 = (Inr sresponse, w3)
      \<and> (SecretString sresponse = None \<or> SecretString sresponse = Some [])"
  have "getSecret env (apiKeySecretName env) w2 =
      (Inl (JsError Error (''Unable to get secret '' @ apiKeySecretName env)),
       [SecretsSend (apiKeySecretName env)], w3)"
    using missing by (elim conjE) (rule getSecret_missing)
  with soft missing show "recordHandler env rec w0 =
      (Inl (JsError Error (''Unable to get secret '' @ apiKeySecretName env)),
       [GetLabelsCall (s3BucketFiles env) fileId userId key,
        LoggerWarn ''No person found in the image'',
        SsmSend (apiUrlParameterName env),
        SecretsSend (apiKeySecretName env)], w3)"
    by (elim conjE) (rule recordHandler_secret_fails)
qed

theorem missing_value_fails_lookup_and_skips_report_witness:
  "getParameter scripted_env ''/app/api-url'' (stocked_world\<lparr>parameters := []\<rparr>) =
     (Inl (JsError Error ''Unable to get parameter /app/api-url''), [SsmSend ''/app/api-url''],
      stocked_world\<lparr>parameters := []\<rparr>)
   \<and> getSecret scripted_env ''app/api-key'' (stocked_world\<lparr>secrets := [(''app/api-key'', [])]\<rparr>) =
     (Inl (JsError Error ''Unable to get secret app/api-key''), [SecretsSend ''app/api-key''],
      stocked_world\<lparr>secrets := [(''app/api-key'', [])]\<rparr>)
   \<and> recordHandler scripted_env (stream_record ''landscape'') (stocked_world\<lparr>parameters := []\<rparr>) =
     (Inl (JsError Error ''Unable to get parameter /app/api-url''),
      [GetLabelsCall ''media-files'' (JsString ''landscape'') (JsString ''user-1'')
         (JsString ''transformed/landscape''),
       LoggerWarn ''No person found in the image'',
       SsmSend ''/app/api-url''],
      stocked_world\<lparr>parameters := [], labelled := [JsString ''landscape'']\<rparr>)
   \<and> recordHandler scripted_env (stream_record ''landscape'')
       (stocked_world\<lparr>secrets := [(''app/api-key'', [])]\<rparr>) =
     (Inl (JsError Error ''Unable to get secret app/api-key''),
      [GetLabelsCall ''media-files'' (JsString ''landscape'') (JsString ''user-1'')
         (JsString ''transformed/landscape''),
       LoggerWarn ''No person found in the image'',
       SsmSend ''/app/api-url'',
       SecretsSend ''app/api-key''],
      stocked_world\<lparr>secrets := [(''app/api-key'', [])], labelled := [JsString ''landscape'']\<rparr>)"
  using missing_value_fails_lookup_and_skips_report
    [where env = scripted_env and n = "''/app/api-url''"
       and w = "stocked_world\<lparr>parameters := []\<rparr>"
       and w' = "stocked_world\<lparr>parameters := []\<rparr>"
       and presponse = "\<lparr>Parameter = None\<rparr>"
       and rec = "stream_record ''landscape''"
       and ?w0.0 = "stocked_world\<lparr>parameters := []\<rparr>"
       and fileId = "JsString ''landscape''" and userId = "JsString ''user-1''"
       and key = "JsString ''transformed/landscape''"
       and error = "JsError NoPersonFoundError ''No person found''"
       and ?w1.0 = "stocked_world\<lparr>parameters := [], labelled := [JsString ''landscape'']\<rparr>"
       and ?w2.0 = "stocked_world\<lparr>parameters := [], labelled := [JsString ''landscape'']\<rparr>"]
    missing_value_fails_lookup_and_skips_report
    [where env = scripted_env and n = "''app/api-key''"
       and w = "stocked_world\<lparr>secrets := [(''app/api-key'', [])]\<rparr>"
       and w' = "stocked_world\<lparr>secrets := [(''app/api-key'', [])]\<rparr>"
       and sresponse = "\<lparr>SecretString = Some []\<rparr>"
       and rec = "stream_record ''landscape''"
       and ?w0.0 = "stocked_world\<lparr>secrets := [(''app/api-key'', [])]\<rparr>"
       and fileId = "JsString ''landscape''" and userId = "JsString ''user-1''"
       and key = "JsString ''transformed/landscape''"
       and error = "JsError NoPersonFoundError ''No person found''"
       and ?w1.0 = "stocked_world\<lparr>secrets := [(''app/api-key'', [])], labelled := [JsString ''landscape'']\<rparr>"
       and apiUrl = "JsString ''https://api.example.com/report''"
       and ?evs1.0 = "[SsmSend ''/app/api-url'']"
       and ?w2.0 = "stocked_world\<lparr>secrets := [(''app/api-key'', [])], labelled := [JsString ''landscape'']\<rparr>"
       and ?w3.0 = "stocked_world\<lparr>secrets := [(''app/api-key'', [])], labelled := [JsString ''landscape'']\<rparr>"]
  by (simp add: scripted_defs lookup_defs io_defs)




text \<open>
  C8. Nothing guards against processing a record again: in whatever state of the world
  the processor is applied to a record, it issues the labeling call, and two soft
  failures of the same record in a row issue the whole sequence of calls twice.
\<close>

theorem reprocessing_repeats_all_calls:
  "(recordData env rec = Inr (fileId, userId, key)
    \<longrightarrow> (\<exists>r evs w'. recordHandler env rec w =
            (r, GetLabelsCall (s3BucketFiles env) fileId userId key # evs, w')))
   \<and> (recordData env rec = Inr (fileId, userId, key)
      \<and> getLabels env (s3BucketFiles env) fileId userId key w = (Inl error, w1)
      \<and> (error_class error = NoPersonFoundError \<or> error_class error = NoLabelsFoundError)
      \<and> getParameter env (apiUrlParameterName env) w1 = (Inr apiUrl, evs1, w2)
      \<and> getSecret env (apiKeySecretName env) w2 = (Inr apiKey, evs2, w3)
      \<and> reportImageIssue env fileId userId apiUrl apiKey w3 = (Inr (), w4)
      \<and> getLabels env (s3BucketFiles env) fileId userId key w4 = (Inl error', w5)
      \<and> (error_class error' = NoPersonFoundError \<or> error_class error' = NoLabelsFoundError)
      \<and> getParameter env (apiUrlParameterName env) w5 = (Inr apiUrl', evs3, w6)
      \<and> getSecret env (apiKeySecretName env) w6 = (Inr apiKey', evs4, w7)
      \<and> reportImageIssue env fileId userId apiUrl' apiKey' w7 = (Inr (), w8)
    \<longrightarrow> io_bind (recordHandler env rec) (\<lambda>_. recordHandler env rec) w =
          (Inr (),
           [GetLabelsCall (s3BucketFiles env) fileId userId key,
            LoggerWarn ''No person found in the image'',
            SsmSend (apiUrlParameterName env),
            SecretsSend (apiKeySecretName env),
            ReportImageIssueCall fileId userId apiUrl apiKey,
            GetLabelsCall (s3BucketFiles env) fileId userId key,
            LoggerWarn ''No person found in the image'',
            SsmSend (apiUrlParameterName env),
            SecretsSend (apiKeySecretName env),
            ReportImageIssueCall fileId userId apiUrl' apiKey'], w8))"
proof (intro conjI impI)
  assume "recordData env rec = Inr (fileId, userId, key)"
  then show "\<exists>r evs w'. recordHandler env rec w =
      (r, GetLabelsCall (s3BucketFiles env) fileId userId key # evs, w')"
    by (rule recordHandler_calls_labels)
next
  assume h: "recordData env rec = Inr (fileId, userId, key)
      \<and> getLabels env (s3BucketFiles env) fileId userId key w = (Inl error, w1)
      \<and> (error_class error = NoPersonFoundError \<or> error_class error = NoLabelsFoundError)
      \<and> getParameter env (apiUrlParameterName env) w1 = (Inr apiUrl, evs1, w2)
      \<and> getSecret env (apiKeySecretName env) w2 = (Inr apiKey, evs2, w3)
      \<and> reportImageIssue env fileId userId apiUrl apiKey w3 = (Inr (), w4)
      \<and> getLabels env (s3BucketFiles env) fileId userId key w4 = (Inl error', w5)
      \<and> (error_class error' = NoPersonFoundError \<or> error_class error' = NoLabelsFoundError)
      \<and> getParameter env (apiUrlParameterName env) w5 = (Inr apiUrl', evs3, w6)
      \<and> getSecret env (apiKeySecretName env) w6 = (Inr apiKey', evs4, w7)
      \<and> reportImageIssue env fileId userId apiUrl' apiKey' w7 = (Inr (), w8)"
  have first: "recordHandler env rec w =
      (Inr (),
       [GetLabelsCall (s3BucketFiles env) fileId userId key,
        LoggerWarn ''No person found in the image'',
        SsmSend (apiUrlParameterName env),
        SecretsSend (apiKeySecretName env),
        ReportImageIssueCall fileId userId apiUrl apiKey], w4)"
    using h by (elim conjE) (rule recordHandler_reports)
  have again: "recordHandler env rec w4 =
      (Inr (),
       [GetLabelsCall (s3BucketFiles env) fileId userId key,
        LoggerWarn ''No person found in the image'',
        SsmSend (apiUrlParameterName env),
        SecretsSend (apiKeySecretName env),
        ReportImageIssueCall fileId userId apiUrl' apiKey'], w8)"
    using h by (elim conjE) (rule recordHandler_reports)
  show "io_bind (recordHandler env rec) (\<lambda>_. recordHandler env rec) w =
          (Inr (),
           [GetLabelsCall (s3BucketFiles env) fileId userId key,
            LoggerWarn ''No person found in the image'',
            SsmSend (apiUrlParameterName env),
            SecretsSend (apiKeySecretName env),
            ReportImageIssueCall fileId userId apiUrl apiKey,
            GetLabelsCall (s3BucketFiles env) fileId userId key,
            LoggerWarn ''No person found in the image'',
            SsmSend (apiUrlParameterName env),
            SecretsSend (apiKeySecretName env),
            ReportImageIssueCall fileId userId apiUrl' apiKey'], w8)"
    using run_twice [OF first again] by simp
qed

theorem reprocessing_repeats_all_calls_witness:
  "(\<exists>r evs w'. recordHandler scripted_env (stream_record ''landscape'') stocked_world =
       (r, GetLabelsCall ''media-files'' (JsString ''landscape'') (JsString ''user-1'')
             (JsString ''transformed/landscape'') # evs, w'))
   \<and> io_bind (recordHandler scripted_env (stream_record ''landscape''))
        (\<lambda>_. recordHandler scripted_env (stream_record ''landscape'')) stocked_world =
     (Inr (),
      [GetLabelsCall ''media-files'' (JsString ''landscape'') (JsString ''user-1'')
         (JsString ''transformed/landscape''),
       LoggerWarn ''No person found in the image'',
       SsmSend ''/app/api-url'',
       SecretsSend ''app/api-key'',
       ReportImageIssueCall (JsString ''landscape'') (JsString ''user-1'')
         (JsString ''https://api.example.com/report'') (JsString ''k-123''),
       GetLabelsCall ''media-files'' (JsString ''landscape'') (JsString ''user-1'')
         (JsString ''transformed/landscape''),
       LoggerWarn ''No person found in the image'',
       SsmSend ''/app/api-url'',
       SecretsSend ''app/api-key'',
       ReportImageIssueCall (JsString ''landscape'') (JsString ''user-1'')
         (JsString ''https://api.example.com/report'') (JsString ''k-123'')],
      stocked_world\<lparr>labelled := [JsString ''landscape'', JsString ''landscape''],
                    reported := [JsString ''landscape'', JsString ''landscape'']\<rparr>)"
  using reprocessing_repeats_all_calls
    [where env = scripted_env and rec = "stream_record ''landscape''" and w = stocked_world
       and fileId = "JsString ''landscape''" and userId = "JsString ''user-1''"
       and key = "JsString ''transformed/landscape''"
       and error = "JsError NoPersonFoundError ''No person found''"
       and ?w1.0 = "stocked_world\<lparr>labelled := [JsString ''landscape'']\<rparr>"
       and apiUrl = "JsString ''https://api.example.com/report''"
       and ?evs1.0 = "[SsmSend ''/app/api-url'']"
       and ?w2.0 = "stocked_world\<lparr>labelled := [JsString ''landscape'']\<rparr>"
       and apiKey = "JsString ''k-123''"
       and ?evs2.0 = "[SecretsSend ''app/api-key'']"
       and ?w3.0 = "stocked_world\<lparr>labelled := [JsString ''landscape'']\<rparr>"
       and ?w4.0 = "stocked_world\<lparr>labelled := [JsString ''landscape''], reported := [JsString ''landscape'']\<rparr>"
       and error' = "JsError NoPersonFoundError ''No person found''"
       and ?w5.0 = "stocked_world\<lparr>labelled := [JsString ''landscape'', JsString ''landscape''], reported := [JsString ''landscape'']\<rparr>"
       and apiUrl' = "JsString ''https://api.example.com/report''"
       and ?evs3.0 = "[SsmSend ''/app/api-url'']"
       and ?w6.0 = "stocked_world\<lparr>labelled := [JsString ''landscape'', JsString ''landscape''], reported := [JsString ''landscape'']\<rparr>"
       and apiKey' = "JsString ''k-123''"
       and ?evs4.0 = "[SecretsSend ''app/api-key'']"
       and ?w7.0 = "stocked_world\<lparr>labelled := [JsString ''landscape'', JsString ''landscape''], reported := [JsString ''landscape'']\<rparr>"
       and ?w8.0 = "stocked_world\<lparr>labelled := [JsString ''landscape'', JsString ''landscape''], reported := [JsString ''landscape'', JsString ''landscape'']\<rparr>"]
  by (simp add: scripted_defs lookup_defs io_defs)

text \<open>
  C9. The processor reads the change payload of a record without a guard. In the
  TypeScript handler a record without \<open>dynamodb\<close> makes the read of \<open>NewImage\<close> throw
  a \<open>TypeError\<close>, an absent \<open>NewImage\<close> is handed to \<open>unmarshall\<close> as \<open>undefined\<close>,
  and the three fields are read from what \<open>unmarshall\<close> returns. In the Java handler a
  record without \<open>dynamodb\<close>, without \<open>NewImage\<close> or without one of the three
  attributes throws a \<open>NullPointerException\<close>. In each of these failures no call has
  been made.
\<close>

theorem payload_is_read_unguarded:
  "(dynamodb rec = None
    \<longrightarrow> (\<exists>m. recordHandler env rec w = (Inl (JsError TypeError m), [], w)))
   \<and> (dynamodb rec = Some sr \<and> NewImage sr = None \<and> unmarshall env None = Inl e
    \<longrightarrow> recordHandler env rec w = (Inl e, [], w))
   \<and> (dynamodb rec = Some sr \<and> unmarshall env (NewImage sr) = Inr (JsObject kvs)
    \<longrightarrow> recordData env rec =
          Inr (case map_of kvs ''id'' of None \<Rightarrow> JsUndefined | Some v \<Rightarrow> v,
               case map_of kvs ''userId'' of None \<Rightarrow> JsUndefined | Some v \<Rightarrow> v,
               case map_of kvs ''transformedFileKey'' of None \<Rightarrow> JsUndefined | Some v \<Rightarrow> v))
   \<and> (dynamodb jrec = None
        \<or> (\<exists>sr. dynamodb jrec = Some sr
             \<and> (NewImage sr = None
                \<or> (\<exists>m. NewImage sr = Some m
                     \<and> (map_of m ''id'' = None \<or> map_of m ''userId'' = None
                        \<or> map_of m ''transformedFileKey'' = None))))
    \<longrightarrow> processMessage jenv jrec jw = (Inl NullPointerException, [], jw))
   \<and> (dynamodb jrec = Some jsr \<and> NewImage jsr = Some jm \<and> map_of jm ''id'' = Some a
        \<and> map_of jm ''userId'' = Some b \<and> map_of jm ''transformedFileKey'' = Some c
    \<longrightarrow> messageData jrec = Inr (getS a, getS b, getS c))"
  using recordHandler_no_dynamodb [of rec env w]
    recordHandler_unmarshall_throws [of rec sr env e w]
    recordData_fields [of rec sr env kvs]
    processMessage_null [of jrec jenv jw]
    messageData_fields [of jrec jsr jm a b c]
  by (intro conjI impI) simp_all

theorem payload_is_read_unguarded_witness:
  "(\<exists>m. recordHandler scripted_env \<lparr>dynamodb = None\<rparr> stocked_world =
       (Inl (JsError TypeError m), [], stocked_world))
   \<and> recordHandler scripted_env \<lparr>dynamodb = Some \<lparr>NewImage = None\<rparr>\<rparr> stocked_world =
       (Inl (JsError TypeError ''Cannot convert undefined or null to object''), [], stocked_world)
   \<and> recordData scripted_env \<lparr>dynamodb = Some \<lparr>NewImage = Some [(''id'', S ''portrait'')]\<rparr>\<rparr> =
       Inr (JsString ''portrait'', JsUndefined, JsUndefined)
   \<and> processMessage cached_jenv \<lparr>dynamodb = None\<rparr> cold_jworld =
       (Inl NullPointerException, [], cold_jworld)
   \<and> processMessage cached_jenv \<lparr>dynamodb = Some \<lparr>NewImage = None\<rparr>\<rparr> cold_jworld =
       (Inl NullPointerException, [], cold_jworld)
   \<and> processMessage cached_jenv \<lparr>dynamodb = Some \<lparr>NewImage = Some [(''id'', S ''portrait'')]\<rparr>\<rparr>
       cold_jworld =
       (Inl NullPointerException, [], cold_jworld)
   \<and> messageData (stream_record ''portrait'') =
       Inr (Some ''portrait'', Some ''user-1'', Some ''transformed/portrait'')"
proof -
  have ts_none: "\<exists>m. recordHandler scripted_env \<lparr>dynamodb = None\<rparr> stocked_world =
       (Inl (JsError TypeError m), [], stocked_world)"
    by (rule payload_is_read_unguarded [THEN conjunct1, rule_format]) simp
  have ts_image: "recordHandler scripted_env \<lparr>dynamodb = Some \<lparr>NewImage = None\<rparr>\<rparr> stocked_world =
       (Inl (JsError TypeError ''Cannot convert undefined or null to object''), [], stocked_world)"
    by (rule payload_is_read_unguarded
          [where sr = "\<lparr>NewImage = None\<rparr>", THEN conjunct2, THEN conjunct1, rule_format])
       (simp add: scripted_env_def scripted_unmarshall_def)
  have ts_fields:
    "recordData scripted_env \<lparr>dynamodb = Some \<lparr>NewImage = Some [(''id'', S ''portrait'')]\<rparr>\<rparr> =
       Inr (JsString ''portrait'', JsUndefined, JsUndefined)"
    using payload_is_read_unguarded
          [where env = scripted_env
             and rec = "\<lparr>dynamodb = Some \<lparr>NewImage = Some [(''id'', S ''portrait'')]\<rparr>\<rparr>"
             and sr = "\<lparr>NewImage = Some [(''id'', S ''portrait'')]\<rparr>"
             and kvs = "[(''id'', JsString ''portrait'')]",
           THEN conjunct2, THEN conjunct2, THEN conjunct1]
    by (simp add: scripted_env_def scripted_unmarshall_def)
  have j_none: "processMessage cached_jenv \<lparr>dynamodb = None\<rparr> cold_jworld =
       (Inl NullPointerException, [], cold_jworld)"
    by (rule payload_is_read_unguarded
          [THEN conjunct2, THEN conjunct2, THEN conjunct2, THEN conjunct1, rule_format]) simp
  have j_image: "processMessage cached_jenv \<lparr>dynamodb = Some \<lparr>NewImage = None\<rparr>\<rparr> cold_jworld =
       (Inl NullPointerException, [], cold_jworld)"
    by (rule payload_is_read_unguarded
          [THEN conjunct2, THEN conjunct2, THEN conjunct2, THEN conjunct1, rule_format]) simp
  have j_field:
    "processMessage cached_jenv \<lparr>dynamodb = Some \<lparr>NewImage = Some [(''id'', S ''portrait'')]\<rparr>\<rparr>
       cold_jworld = (Inl NullPointerException, [], cold_jworld)"
    by (rule payload_is_read_unguarded
          [THEN conjunct2, THEN conjunct2, THEN conjunct2, THEN conjunct1, rule_format]) simp
  have j_fields: "messageData (stream_record ''portrait'') =
       Inr (Some ''portrait'', Some ''user-1'', Some ''transformed/portrait'')"
    using payload_is_read_unguarded
          [where jrec = "stream_record ''portrait''"
             and jsr = "\<lparr>NewImage = Some [(''id'', S ''portrait''), (''userId'', S ''user-1''),
                    (''transformedFileKey'', S ''transformed/portrait'')]\<rparr>"
             and jm = "[(''id'', S ''portrait''), (''userId'', S ''user-1''),
                    (''transformedFileKey'', S ''transformed/portrait'')]"
             and a = "S ''portrait''" and b = "S ''user-1''" and c = "S ''transformed/portrait''",
           THEN conjunct2, THEN conjunct2, THEN conjunct2, THEN conjunct2]
    by (simp add: stream_record_def)
  show ?thesis
    using ts_none ts_image ts_fields j_none j_image j_field j_fields by blast
qed

text \<open>
  C10. \<open>getParameter\<close> and \<open>getSecret\<close> do not return the stored text. Each gives the
  text to \<open>JSON.parse\<close> and returns the property of the parsed value whose key is the
  name that was looked up. So a text that is not JSON makes the lookup throw the
  parser's error, and an object with no property of that name, own or inherited from
  \<open>Object.prototype\<close>, makes the lookup return \<open>undefined\<close>.
\<close>

theorem lookups_parse_and_index_by_name:
  "(ssmClient_send env n w = (Inr presponse, w')
      \<and> Parameter_Value presponse = Some stored \<and> stored \<noteq> []
    \<longrightarrow>
      getParameter env n w =
        (case JSON_parse env stored of
           Inl err \<Rightarrow> Inl err
         | Inr parsed \<Rightarrow> js_get (builtin_property env) parsed n,
         [SsmSend n], w')
      \<and> (JSON_parse env stored = Inl e
         \<longrightarrow> getParameter env n w = (Inl e, [SsmSend n], w'))
      \<and> (JSON_parse env stored = Inr (JsObject kvs) \<and> map_of kvs n = None
           \<and> n \<notin> set Object_prototype
         \<longrightarrow> getParameter env n w = (Inr JsUndefined, [SsmSend n], w'))
      \<and> (JSON_parse env stored = Inr (JsObject kvs) \<and> map_of kvs n = None
           \<and> n \<in> set Object_prototype
         \<longrightarrow> getParameter env n w = (Inr (JsInherited n), [SsmSend n], w'))
      \<and> (JSON_parse env stored = Inr (JsObject kvs) \<and> map_of kvs n = Some v
         \<longrightarrow> getParameter env n w = (Inr v, [SsmSend n], w')))
   \<and> (secretsClient_send env n w = (Inr sresponse, w')
      \<and> SecretString sresponse = Some stored \<and> stored \<noteq> []
    \<longrightarrow>
      getSecret env n w =
        (case JSON_parse env stored of
           Inl err \<Rightarrow> Inl err
         | Inr parsed \<Rightarrow> js_get (builtin_property env) parsed n,
         [SecretsSend n], w')
      \<and> (JSON_parse env stored = Inl e
         \<longrightarrow> getSecret env n w = (Inl e, [SecretsSend n], w'))
      \<and> (JSON_parse env stored = Inr (JsObject kvs) \<and> map_of kvs n = None
           \<and> n \<notin> set Object_prototype
         \<longrightarrow> getSecret env n w = (Inr JsUndefined, [SecretsSend n], w'))
      \<and> (JSON_parse env stored = Inr (JsObject kvs) \<and> map_of kvs n = None
           \<and> n \<in> set Object_prototype
         \<longrightarrow> getSecret env n w = (Inr (JsInherited n), [SecretsSend n], w'))
      \<and> (JSON_parse env stored = Inr (JsObject kvs) \<and> map_of kvs n = Some v
         \<longrightarrow> getSecret env n w = (Inr v, [SecretsSend n], w')))"
proof (intro conjI impI; (elim conjE)?)
  assume p: "ssmClient_send env n w = (Inr presponse, w')"
    "Parameter_Value presponse = Some stored" "stored \<noteq> []"
  note eq = getParameter_stored [OF p]
  show "getParameter env n w =
        (case JSON_parse env stored of
           Inl err \<Rightarrow> Inl err
         | Inr parsed \<Rightarrow> js_get (builtin_property env) parsed n,
         [SsmSend n], w')"
    using eq by (simp add: parse_and_index_def)
  show "getParameter env n w = (Inl e, [SsmSend n], w')" if "JSON_parse env stored = Inl e"
    using eq that by (simp add: parse_and_index_def)
  show "getParameter env n w = (Inr JsUndefined, [SsmSend n], w')"
    if "JSON_parse env stored = Inr (JsObject kvs)" "map_of kvs n = None"
      "n \<notin> set Object_prototype"
    using eq that by (simp add: parse_and_index_def)
  show "getParameter env n w = (Inr (JsInherited n), [SsmSend n], w')"
    if "JSON_parse env stored = Inr (JsObject kvs)" "map_of kvs n = None"
      "n \<in> set Object_prototype"
    using eq that by (simp add: parse_and_index_def)
  show "getParameter env n w = (Inr v, [SsmSend n], w')"
    if "JSON_parse env stored = Inr (JsObject kvs)" "map_of kvs n = Some v"
    using eq that by (simp add: parse_and_index_def)
next
  assume s: "secretsClient_send env n w = (Inr sresponse, w')"
    "SecretString sresponse = Some stored" "stored \<noteq> []"
  note eq = getSecret_stored [OF s]
  show "getSecret env n w =
        (case JSON_parse env stored of
           Inl err \<Rightarrow> Inl err
         | Inr parsed \<Rightarrow> js_get (builtin_property env) parsed n,
         [SecretsSend n], w')"
    using eq by (simp add: parse_and_index_def)
  show "getSecret env n w = (Inl e, [SecretsSend n], w')" if "JSON_parse env stored = Inl e"
    using eq that by (simp add: parse_and_index_def)
  show "getSecret env n w = (Inr JsUndefined, [SecretsSend n], w')"
    if "JSON_parse env stored = Inr (JsObject kvs)" "map_of kvs n = None"
      "n \<notin> set Object_prototype"
    using eq that by (simp add: parse_and_index_def)
  show "getSecret env n w = (Inr (JsInherited n), [SecretsSend n], w')"
    if "JSON_parse env stored = Inr (JsObject kvs)" "map_of kvs n = None"
      "n \<in> set Object_prototype"
    using eq that by (simp add: parse_and_index_def)
  show "getSecret env n w = (Inr v, [SecretsSend n], w')"
    if "JSON_parse env stored = Inr (JsObject kvs)" "map_of kvs n = Some v"
    using eq that by (simp add: parse_and_index_def)
qed

theorem lookups_parse_and_index_by_name_witness:
  \<open>getParameter scripted_env ''/app/api-url''
       (stocked_world\<lparr>parameters := [(''/app/api-url'', ''https://api.example.com/report'')]\<rparr>) =
     (Inl (JsError SyntaxError ''Unexpected token''), [SsmSend ''/app/api-url''],
      stocked_world\<lparr>parameters := [(''/app/api-url'', ''https://api.example.com/report'')]\<rparr>)
   \<and> getParameter scripted_env ''/app/api-url''
       (stocked_world\<lparr>parameters := [(''/app/api-url'', ''{"url":"https://api.example.com/report"}'')]\<rparr>) =
     (Inr JsUndefined, [SsmSend ''/app/api-url''],
      stocked_world\<lparr>parameters := [(''/app/api-url'', ''{"url":"https://api.example.com/report"}'')]\<rparr>)
   \<and> getParameter scripted_env ''toString''
       (stocked_world\<lparr>parameters := [(''toString'', ''{"url":"https://api.example.com/report"}'')]\<rparr>) =
     (Inr (JsInherited ''toString''), [SsmSend ''toString''],
      stocked_world\<lparr>parameters := [(''toString'', ''{"url":"https://api.example.com/report"}'')]\<rparr>)
   \<and> getParameter scripted_env ''/app/api-url''
       (stocked_world\<lparr>parameters := [(''/app/api-url'', ''{"/app/api-url":"https://api.example.com/report"}'')]\<rparr>) =
     (Inr (JsString ''https://api.example.com/report''), [SsmSend ''/app/api-url''],
      stocked_world\<lparr>parameters := [(''/app/api-url'', ''{"/app/api-url":"https://api.example.com/report"}'')]\<rparr>)
   \<and> getSecret scripted_env ''app/api-key''
       (stocked_world\<lparr>secrets := [(''app/api-key'', ''k-123'')]\<rparr>) =
     (Inl (JsError SyntaxError ''Unexpected token''), [SecretsSend ''app/api-key''],
      stocked_world\<lparr>secrets := [(''app/api-key'', ''k-123'')]\<rparr>)
   \<and> getSecret scripted_env ''app/api-key''
       (stocked_world\<lparr>secrets := [(''app/api-key'', ''{"url":"https://api.example.com/report"}'')]\<rparr>) =
     (Inr JsUndefined, [SecretsSend ''app/api-key''],
      stocked_world\<lparr>secrets := [(''app/api-key'', ''{"url":"https://api.example.com/report"}'')]\<rparr>)
   \<and> getSecret scripted_env ''constructor''
       (stocked_world\<lparr>secrets := [(''constructor'', ''{"url":"https://api.example.com/report"}'')]\<rparr>) =
     (Inr (JsInherited ''constructor''), [SecretsSend ''constructor''],
      stocked_world\<lparr>secrets := [(''constructor'', ''{"url":"https://api.example.com/report"}'')]\<rparr>)
   \<and> getSecret scripted_env ''app/api-key''
       (stocked_world\<lparr>secrets := [(''app/api-key'', ''{"app/api-key":"k-123"}'')]\<rparr>) =
     (Inr (JsString ''k-123''), [SecretsSend ''app/api-key''],
      stocked_world\<lparr>secrets := [(''app/api-key'', ''{"app/api-key":"k-123"}'')]\<rparr>)\<close>
proof -
  have c1: \<open>getParameter scripted_env ''/app/api-url''
       (stocked_world\<lparr>parameters := [(''/app/api-url'', ''https://api.example.com/report'')]\<rparr>) =
     (Inl (JsError SyntaxError ''Unexpected token''), [SsmSend ''/app/api-url''],
      stocked_world\<lparr>parameters := [(''/app/api-url'', ''https://api.example.com/report'')]\<rparr>)\<close>
    using lookups_parse_and_index_by_name
      [where env = scripted_env and n = \<open>''/app/api-url''\<close>
         and w = \<open>stocked_world\<lparr>parameters := [(''/app/api-url'', ''https://api.example.com/report'')]\<rparr>\<close>
         and w' = \<open>stocked_world\<lparr>parameters := [(''/app/api-url'', ''https://api.example.com/report'')]\<rparr>\<close>
         and presponse = \<open>\<lparr>Parameter = Some \<lparr>Value = Some ''https://api.example.com/report''\<rparr>\<rparr>\<close> and sresponse = \<open>\<lparr>SecretString = None\<rparr>\<close>
         and stored = \<open>''https://api.example.com/report''\<close> and e = \<open>JsError SyntaxError ''Unexpected token''\<close>
         and kvs = \<open>[]\<close> and v = \<open>JsNull\<close>,
       THEN conjunct1]
    by (simp add: scripted_defs Object_prototype_def)
  have c2: \<open>getParameter scripted_env ''/app/api-url''
       (stocked_world\<lparr>parameters := [(''/app/api-url'', ''{"url":"https://api.example.com/report"}'')]\<rparr>) =
     (Inr JsUndefined, [SsmSend ''/app/api-url''],
      stocked_world\<lparr>parameters := [(''/app/api-url'', ''{"url":"https://api.example.com/report"}'')]\<rparr>)\<close>
    using lookups_parse_and_index_by_name
      [where env = scripted_env and n = \<open>''/app/api-url''\<close>
         and w = \<open>stocked_world\<lparr>parameters := [(''/app/api-url'', ''{"url":"https://api.example.com/report"}'')]\<rparr>\<close>
         and w' = \<open>stocked_world\<lparr>parameters := [(''/app/api-url'', ''{"url":"https://api.example.com/report"}'')]\<rparr>\<close>
         and presponse = \<open>\<lparr>Parameter = Some \<lparr>Value = Some ''{"url":"https://api.example.com/report"}''\<rparr>\<rparr>\<close> and sresponse = \<open>\<lparr>SecretString = None\<rparr>\<close>
         and stored = \<open>''{"url":"https://api.example.com/report"}''\<close> and e = \<open>JsError SyntaxError ''Unexpected token''\<close>
         and kvs = \<open>[(''url'', JsString ''https://api.example.com/report'')]\<close> and v = \<open>JsNull\<close>,
       THEN conjunct1]
    by (simp add: scripted_defs Object_prototype_def)
  have c3: \<open>getParameter scripted_env ''toString''
       (stocked_world\<lparr>parameters := [(''toString'', ''{"url":"https://api.example.com/report"}'')]\<rparr>) =
     (Inr (JsInherited ''toString''), [SsmSend ''toString''],
      stocked_world\<lparr>parameters := [(''toString'', ''{"url":"https://api.example.com/report"}'')]\<rparr>)\<close>
    using lookups_parse_and_index_by_name
      [where env = scripted_env and n = \<open>''toString''\<close>
         and w = \<open>stocked_world\<lparr>parameters := [(''toString'', ''{"url":"https://api.example.com/report"}'')]\<rparr>\<close>
         and w' = \<open>stocked_world\<lparr>parameters := [(''toString'', ''{"url":"https://api.example.com/report"}'')]\<rparr>\<close>
         and presponse = \<open>\<lparr>Parameter = Some \<lparr>Value = Some ''{"url":"https://api.example.com/report"}''\<rparr>\<rparr>\<close> and sresponse = \<open>\<lparr>SecretString = None\<rparr>\<close>
         and stored = \<open>''{"url":"https://api.example.com/report"}''\<close> and e = \<open>JsError SyntaxError ''Unexpected token''\<close>
         and kvs = \<open>[(''url'', JsString ''https://api.example.com/report'')]\<close> and v = \<open>JsNull\<close>,
       THEN conjunct1]
    by (simp add: scripted_defs Object_prototype_def)
  have c4: \<open>getParameter scripted_env ''/app/api-url''
       (stocked_world\<lparr>parameters := [(''/app/api-url'', ''{"/app/api-url":"https://api.example.com/report"}'')]\<rparr>) =
     (Inr (JsString ''https://api.example.com/report''), [SsmSend ''/app/api-url''],
      stocked_world\<lparr>parameters := [(''/app/api-url'', ''{"/app/api-url":"https://api.example.com/report"}'')]\<rparr>)\<close>
    using lookups_parse_and_index_by_name
      [where env = scripted_env and n = \<open>''/app/api-url''\<close>
         and w = \<open>stocked_world\<lparr>parameters := [(''/app/api-url'', ''{"/app/api-url":"https://api.example.com/report"}'')]\<rparr>\<close>
         and w' = \<open>stocked_world\<lparr>parameters := [(''/app/api-url'', ''{"/app/api-url":"https://api.example.com/report"}'')]\<rparr>\<close>
         and presponse = \<open>\<lparr>Parameter = Some \<lparr>Value = Some ''{"/app/api-url":"https://api.example.com/report"}''\<rparr>\<rparr>\<close> and sresponse = \<open>\<lparr>SecretString = None\<rparr>\<close>
         and stored = \<open>''{"/app/api-url":"https://api.example.com/report"}''\<close> and e = \<open>JsError SyntaxError ''Unexpected token''\<close>
         and kvs = \<open>[(''/app/api-url'', JsString ''https://api.example.com/report'')]\<close> and v = \<open>JsString ''https://api.example.com/report''\<close>,
       THEN conjunct1]
    by (simp add: scripted_defs Object_prototype_def)
  have c5: \<open>getSecret scripted_env ''app/api-key''
       (stocked_world\<lparr>secrets := [(''app/api-key'', ''k-123'')]\<rparr>) =
     (Inl (JsError SyntaxError ''Unexpected token''), [SecretsSend ''app/api-key''],
      stocked_world\<lparr>secrets := [(''app/api-key'', ''k-123'')]\<rparr>)\<close>
    using lookups_parse_and_index_by_name
      [where env = scripted_env and n = \<open>''app/api-key''\<close>
         and w = \<open>stocked_world\<lparr>secrets := [(''app/api-key'', ''k-123'')]\<rparr>\<close>
         and w' = \<open>stocked_world\<lparr>secrets := [(''app/api-key'', ''k-123'')]\<rparr>\<close>
         and sresponse = \<open>\<lparr>SecretString = Some ''k-123''\<rparr>\<close> and presponse = \<open>\<lparr>Parameter = None\<rparr>\<close>
         and stored = \<open>''k-123''\<close> and e = \<open>JsError SyntaxError ''Unexpected token''\<close>
         and kvs = \<open>[]\<close> and v = \<open>JsNull\<close>,
       THEN conjunct2]
    by (simp add: scripted_defs Object_prototype_def)
  have c6: \<open>getSecret scripted_env ''app/api-key''
       (stocked_world\<lparr>secrets := [(''app/api-key'', ''{"url":"https://api.example.com/report"}'')]\<rparr>) =
     (Inr JsUndefined, [SecretsSend ''app/api-key''],
      stocked_world\<lparr>secrets := [(''app/api-key'', ''{"url":"https://api.example.com/report"}'')]\<rparr>)\<close>
    using lookups_parse_and_index_by_name
      [where env = scripted_env and n = \<open>''app/api-key''\<close>
         and w = \<open>stocked_world\<lparr>secrets := [(''app/api-key'', ''{"url":"https://api.example.com/report"}'')]\<rparr>\<close>
         and w' = \<open>stocked_world\<lparr>secrets := [(''app/api-key'', ''{"url":"https://api.example.com/report"}'')]\<rparr>\<close>
         and sresponse = \<open>\<lparr>SecretString = Some ''{"url":"https://api.example.com/report"}''\<rparr>\<close> and presponse = \<open>\<lparr>Parameter = None\<rparr>\<close>
         and stored = \<open>''{"url":"https://api.example.com/report"}''\<close> and e = \<open>JsError SyntaxError ''Unexpected token''\<close>
         and kvs = \<open>[(''url'', JsString ''https://api.example.com/report'')]\<close> and v = \<open>JsNull\<close>,
       THEN conjunct2]
    by (simp add: scripted_defs Object_prototype_def)
  have c7: \<open>getSecret scripted_env ''constructor''
       (stocked_world\<lparr>secrets := [(''constructor'', ''{"url":"https://api.example.com/report"}'')]\<rparr>) =
     (Inr (JsInherited ''constructor''), [SecretsSend ''constructor''],
      stocked_world\<lparr>secrets := [(''constructor'', ''{"url":"https://api.example.com/report"}'')]\<rparr>)\<close>
    using lookups_parse_and_index_by_name
      [where env = scripted_env and n = \<open>''constructor''\<close>
         and w = \<open>stocked_world\<lparr>secrets := [(''constructor'', ''{"url":"https://api.example.com/report"}'')]\<rparr>\<close>
         and w' = \<open>stocked_world\<lparr>secrets := [(''constructor'', ''{"url":"https://api.example.com/report"}'')]\<rparr>\<close>
         and sresponse = \<open>\<lparr>SecretString = Some ''{"url":"https://api.example.com/report"}''\<rparr>\<close> and presponse = \<open>\<lparr>Parameter = None\<rparr>\<close>
         and stored = \<open>''{"url":"https://api.example.com/report"}''\<close> and e = \<open>JsError SyntaxError ''Unexpected token''\<close>
         and kvs = \<open>[(''url'', JsString ''https://api.example.com/report'')]\<close> and v = \<open>JsNull\<close>,
       THEN conjunct2]
    by (simp add: scripted_defs Object_prototype_def)
  have c8: \<open>getSecret scripted_env ''app/api-key''
       (stocked_world\<lparr>secrets := [(''app/api-key'', ''{"app/api-key":"k-123"}'')]\<rparr>) =
     (Inr (JsString ''k-123''), [SecretsSend ''app/api-key''],
      stocked_world\<lparr>secrets := [(''app/api-key'', ''{"app/api-key":"k-123"}'')]\<rparr>)\<close>
    using lookups_parse_and_index_by_name
      [where env = scripted_env and n = \<open>''app/api-key''\<close>
         and w = \<open>stocked_world\<lparr>secrets := [(''app/api-key'', ''{"app/api-key":"k-123"}'')]\<rparr>\<close>
         and w' = \<open>stocked_world\<lparr>secrets := [(''app/api-key'', ''{"app/api-key":"k-123"}'')]\<rparr>\<close>
         and sresponse = \<open>\<lparr>SecretString = Some ''{"app/api-key":"k-123"}''\<rparr>\<close> and presponse = \<open>\<lparr>Parameter = None\<rparr>\<close>
         and stored = \<open>''{"app/api-key":"k-123"}''\<close> and e = \<open>JsError SyntaxError ''Unexpected token''\<close>
         and kvs = \<open>[(''app/api-key'', JsString ''k-123'')]\<close> and v = \<open>JsString ''k-123''\<close>,
       THEN conjunct2]
    by (simp add: scripted_defs Object_prototype_def)
  show ?thesis
    using c1 c2 c3 c4 c5 c6 c7 c8 by simp
qed

end
